theory Spec2Isabelle
  imports Main "HOL-Library.Word"
begin

section \<open>JavaScript values and strings\<close>

text \<open>
  The webhook listener is JavaScript running on Node.js. The values it handles are JSON
  values (the body parsed by \<^verbatim>\<open>express.json\<close>), \<^verbatim>\<open>undefined\<close> (a missing
  property or header) and \<^verbatim>\<open>Date\<close> objects. A JSON value is a \<open>json\<close>; a value
  that may be \<^verbatim>\<open>undefined\<close> is a \<open>json option\<close> with \<open>None\<close> for
  \<^verbatim>\<open>undefined\<close>. An object is the list of its properties in enumeration order, with
  distinct keys. Scope of the model: numbers are the integers (as timestamps and ids
  are), and a string is a list of code units below 256 (ASCII and Latin-1).
\<close>

datatype json =
    JNull
  | JBool bool
  | JNum int
  | JStr string
  | JArr "json list"
  | JObj "(string \<times> json) list"

type_synonym jsval = "json option"

text \<open>Truthiness, as \<^verbatim>\<open>if (v)\<close>, \<^verbatim>\<open>!v\<close>, \<^verbatim>\<open>a || b\<close> and \<^verbatim>\<open>c ? a : b\<close> test it.\<close>

fun truthy :: "jsval \<Rightarrow> bool" where
  "truthy None = False"
| "truthy (Some JNull) = False"
| "truthy (Some (JBool b)) = b"
| "truthy (Some (JNum n)) = (n \<noteq> 0)"
| "truthy (Some (JStr s)) = (s \<noteq> [])"
| "truthy (Some (JArr xs)) = True"
| "truthy (Some (JObj kvs)) = True"

text \<open>\<^verbatim>\<open>a || b\<close>\<close>

definition js_or :: "jsval \<Rightarrow> jsval \<Rightarrow> jsval" where
  "js_or a b = (if truthy a then a else b)"

text \<open>
  \<^verbatim>\<open>v.key\<close> on a value that is neither \<^verbatim>\<open>undefined\<close> nor \<^verbatim>\<open>null\<close>: the
  property of an object, \<^verbatim>\<open>undefined\<close> on anything else (none of the keys read by
  the controllers is a built-in property of a string, number, boolean or array).
\<close>

fun get_prop :: "json \<Rightarrow> string \<Rightarrow> jsval" where
  "get_prop (JObj kvs) k = map_of kvs k"
| "get_prop v k = None"

definition nullish :: "jsval \<Rightarrow> bool" where
  "nullish v = (v = None \<or> v = Some JNull)"

text \<open>\<^verbatim>\<open>v?.key\<close>\<close>

definition opt_chain :: "jsval \<Rightarrow> string \<Rightarrow> jsval" where
  "opt_chain v k = (case v of None \<Rightarrow> None | Some JNull \<Rightarrow> None | Some ob \<Rightarrow> get_prop ob k)"

subsection \<open>Numbers as text\<close>

definition digit_char :: "nat \<Rightarrow> char" where
  "digit_char d = ''0123456789'' ! (d mod 10)"

function show_nat :: "nat \<Rightarrow> string" where
  "show_nat n = (if n < 10 then [digit_char n] else show_nat (n div 10) @ [digit_char (n mod 10)])"
  by pat_completeness auto
termination
  by (relation "measure id") auto

declare show_nat.simps [simp del]

text \<open>An integer as JavaScript prints it (plain decimal digits below \<open>10^21\<close>).\<close>

definition show_int :: "int \<Rightarrow> string" where
  "show_int i = (if i < 0 then CHR ''-'' # show_nat (nat (- i)) else show_nat (nat i))"

subsection \<open>\<^verbatim>\<open>JSON.stringify\<close>\<close>

definition dquote :: char where
  "dquote = CHR 0x22"

definition backslash :: char where
  "backslash = CHR 0x5C"

definition hex_digit :: "nat \<Rightarrow> char" where
  "hex_digit n = ''0123456789abcdef'' ! (n mod 16)"

text \<open>One code unit inside a JSON string literal (ECMAScript's QuoteJSONString).\<close>

definition escape_char :: "char \<Rightarrow> string" where
  "escape_char c =
     (if c = dquote then [backslash, dquote]
      else if c = backslash then [backslash, backslash]
      else if c = CHR 0x08 then [backslash, CHR ''b'']
      else if c = CHR 0x0C then [backslash, CHR ''f'']
      else if c = CHR 0x0A then [backslash, CHR ''n'']
      else if c = CHR 0x0D then [backslash, CHR ''r'']
      else if c = CHR 0x09 then [backslash, CHR ''t'']
      else if (of_char c :: nat) < 32
        then [backslash, CHR ''u'', CHR ''0'', CHR ''0'',
              hex_digit (of_char c div 16), hex_digit (of_char c mod 16)]
      else [c])"

definition quote :: "string \<Rightarrow> string" where
  "quote s = dquote # concat (map escape_char s) @ [dquote]"

fun join :: "string \<Rightarrow> string list \<Rightarrow> string" where
  "join sep [] = []"
| "join sep [x] = x"
| "join sep (x # y # ys) = x @ sep @ join sep (y # ys)"

fun JSON_stringify :: "json \<Rightarrow> string"
  and stringify_elements :: "json list \<Rightarrow> string list"
  and stringify_members :: "(string \<times> json) list \<Rightarrow> string list" where
  "JSON_stringify JNull = ''null''"
| "JSON_stringify (JBool b) = (if b then ''true'' else ''false'')"
| "JSON_stringify (JNum n) = show_int n"
| "JSON_stringify (JStr s) = quote s"
| "JSON_stringify (JArr xs) = ''['' @ join '','' (stringify_elements xs) @ '']''"
| "JSON_stringify (JObj kvs) = ''{'' @ join '','' (stringify_members kvs) @ ''}''"
| "stringify_elements [] = []"
| "stringify_elements (x # xs) = JSON_stringify x # stringify_elements xs"
| "stringify_members [] = []"
| "stringify_members (kv # kvs) =
     (quote (fst kv) @ '':'' @ JSON_stringify (snd kv)) # stringify_members kvs"

subsection \<open>\<^verbatim>\<open>parseInt\<close>, \<^verbatim>\<open>trim\<close>, \<^verbatim>\<open>replace\<close>\<close>

text \<open>White space and line terminators among the code units below 256.\<close>

definition is_ws :: "char \<Rightarrow> bool" where
  "is_ws c = ((of_char c :: nat) \<in> {9, 10, 11, 12, 13, 32, 160})"

text \<open>
  The value of an alphanumeric character as a digit (\<open>0\<close> to \<open>35\<close>); \<open>36\<close>, which
  is a digit in no radix, for any other character.
\<close>

definition digit_of :: "char \<Rightarrow> nat" where
  "digit_of c =
     (let n = (of_char c :: nat)
      in if 48 \<le> n \<and> n \<le> 57 then n - 48
         else if 97 \<le> n \<and> n \<le> 122 then n - 87
         else if 65 \<le> n \<and> n \<le> 90 then n - 55
         else 36)"

definition is_digit :: "nat \<Rightarrow> char \<Rightarrow> bool" where
  "is_digit radix c = (digit_of c < radix)"

definition digits_value :: "nat \<Rightarrow> string \<Rightarrow> nat" where
  "digits_value radix s = foldl (\<lambda>acc c. acc * radix + digit_of c) 0 s"

text \<open>
  \<^verbatim>\<open>parseInt(str)\<close> with no radix: leading white space is skipped, then an optional
  sign, then an optional \<^verbatim>\<open>0x\<close> that selects radix 16, then the longest run of digits.
  \<open>None\<close> is \<^verbatim>\<open>NaN\<close> (no digit). The result is a double: it is this integer
  exactly when its magnitude is below \<open>2^53\<close>; a larger one is rounded, and is then
  further than 300 from any time a clock can show, rounded or not.
\<close>

definition parseInt :: "string \<Rightarrow> int option" where
  "parseInt str =
     (let s = dropWhile is_ws str;
          neg = (s \<noteq> [] \<and> hd s = CHR ''-'');
          s1 = (if s \<noteq> [] \<and> (hd s = CHR ''+'' \<or> hd s = CHR ''-'') then tl s else s);
          hex = (take 2 s1 = ''0x'' \<or> take 2 s1 = ''0X'');
          radix = (if hex then 16 else 10);
          s2 = (if hex then drop 2 s1 else s1);
          z = takeWhile (is_digit radix) s2
      in if z = [] then None
         else Some ((if neg then - 1 else 1) * int (digits_value radix z)))"

text \<open>\<^verbatim>\<open>str.trim()\<close>\<close>

definition trim :: "string \<Rightarrow> string" where
  "trim s = rev (dropWhile is_ws (rev (dropWhile is_ws s)))"

text \<open>\<^verbatim>\<open>str.replace(pat, rep)\<close> with a string pattern: the first occurrence only.\<close>

fun replace_first :: "string \<Rightarrow> string \<Rightarrow> string \<Rightarrow> string" where
  "replace_first pat rep [] = (if pat = [] then rep else [])"
| "replace_first pat rep (c # cs) =
     (if take (length pat) (c # cs) = pat then rep @ drop (length pat) (c # cs)
      else c # replace_first pat rep cs)"

subsection \<open>Numerals in strings\<close>

text \<open>
  A decimal numeral, as \<^verbatim>\<open>Number(str)\<close> and the validation library read one in a
  string without surrounding white space: an optional sign, then digits with an optional
  dot and fraction, or a dot and a fraction, then an optional exponent. The whole string
  has to be the numeral.
\<close>

record decimal =
  num_negative :: bool
  num_integer :: string
  num_dot :: bool
  num_fraction :: string
  num_exponent :: "int option"

definition decimal_literal :: "string \<Rightarrow> decimal option" where
  "decimal_literal str =
     (let neg = (str \<noteq> [] \<and> hd str = CHR ''-'');
          s1 = (if str \<noteq> [] \<and> (hd str = CHR ''+'' \<or> hd str = CHR ''-'') then tl str else str);
          ip = takeWhile (is_digit 10) s1;
          r1 = dropWhile (is_digit 10) s1;
          dot = (r1 \<noteq> [] \<and> hd r1 = CHR ''.'');
          fp = (if dot then takeWhile (is_digit 10) (tl r1) else []);
          r2 = (if dot then dropWhile (is_digit 10) (tl r1) else r1)
      in if ip = [] \<and> fp = [] then None
         else if r2 = []
         then Some \<lparr>num_negative = neg, num_integer = ip, num_dot = dot, num_fraction = fp,
                     num_exponent = None\<rparr>
         else if hd r2 = CHR ''e'' \<or> hd r2 = CHR ''E''
         then
           let r3 = tl r2;
               eneg = (r3 \<noteq> [] \<and> hd r3 = CHR ''-'');
               ds = (if r3 \<noteq> [] \<and> (hd r3 = CHR ''+'' \<or> hd r3 = CHR ''-'') then tl r3 else r3)
           in if ds \<noteq> [] \<and> list_all (is_digit 10) ds
              then Some \<lparr>num_negative = neg, num_integer = ip, num_dot = dot, num_fraction = fp,
                          num_exponent = Some ((if eneg then - 1 else 1) * int (digits_value 10 ds))\<rparr>
              else None
         else None)"

text \<open>
  The value of a numeral when it is an integer: the digits, moved by the exponent less
  the length of the fraction. \<open>None\<close> when the value is a fraction.
\<close>

definition numeral_int :: "decimal \<Rightarrow> int option" where
  "numeral_int n =
     (let m = digits_value 10 (num_integer n @ num_fraction n);
          k = (case num_exponent n of None \<Rightarrow> 0 | Some x \<Rightarrow> x) - int (length (num_fraction n));
          sign = (if num_negative n then - 1 else 1)
      in if k \<ge> 0 then Some (sign * int (m * 10 ^ nat k))
         else if m mod 10 ^ nat (- k) = 0 then Some (sign * int (m div 10 ^ nat (- k)))
         else None)"

text \<open>\<^verbatim>\<open>0x\<close>, \<^verbatim>\<open>0o\<close> or \<^verbatim>\<open>0b\<close> and digits of that radix, with no sign.\<close>

definition radix_literal :: "string \<Rightarrow> nat option" where
  "radix_literal str =
     (let radix = (if take 2 str = ''0x'' \<or> take 2 str = ''0X'' then 16
                   else if take 2 str = ''0o'' \<or> take 2 str = ''0O'' then 8
                   else if take 2 str = ''0b'' \<or> take 2 str = ''0B'' then 2
                   else 0);
          ds = drop 2 str
      in if radix \<noteq> 0 \<and> ds \<noteq> [] \<and> list_all (is_digit radix) ds
         then Some (digits_value radix ds)
         else None)"

text \<open>
  \<^verbatim>\<open>Number(str)\<close> on a string, \<open>None\<close> for \<^verbatim>\<open>NaN\<close>: white space is trimmed, the
  empty string is \<open>0\<close>, and the rest has to be one numeral. The result is a double:
  it is the integer read here exactly when its magnitude is below \<open>2^53\<close>. The
  numbers of the model are the integers: a numeral whose value is a fraction, and
  \<^verbatim>\<open>Infinity\<close>, read as a number that the model does not have and are left as
  \<open>None\<close> too. (No payload holds one in a place that is converted once it has passed
  the validator below.)
\<close>

definition string_to_number :: "string \<Rightarrow> int option" where
  "string_to_number s =
     (let t = trim s
      in if t = [] then Some 0
         else case radix_literal t of
                Some n \<Rightarrow> Some (int n)
              | None \<Rightarrow>
                  (case decimal_literal t of
                     Some n \<Rightarrow> numeral_int n
                   | None \<Rightarrow> None))"

subsection \<open>Buffers and hexadecimal\<close>

type_synonym byte = "8 word"

text \<open>\<^verbatim>\<open>hmac.digest('hex')\<close>: two lower-case digits per byte.\<close>

definition digest_hex :: "byte list \<Rightarrow> string" where
  "digest_hex bs = concat (map (\<lambda>b. [hex_digit (unat b div 16), hex_digit (unat b mod 16)]) bs)"

text \<open>
  \<^verbatim>\<open>Buffer.from(str, 'hex')\<close>: decodes pairs of hexadecimal digits and stops, without
  an error, at the first pair that is not two digits; a trailing single digit is dropped.
\<close>

fun Buffer_from_hex :: "string \<Rightarrow> byte list" where
  "Buffer_from_hex (c1 # c2 # cs) =
     (if is_digit 16 c1 \<and> is_digit 16 c2
      then of_nat (16 * digit_of c1 + digit_of c2) # Buffer_from_hex cs
      else [])"
| "Buffer_from_hex cs = []"

text \<open>
  \<^verbatim>\<open>crypto.timingSafeEqual(a, b)\<close>: throws a RangeError when the byte lengths differ
  (\<open>None\<close>), otherwise tells whether the buffers are equal.
\<close>

definition timingSafeEqual :: "byte list \<Rightarrow> byte list \<Rightarrow> bool option" where
  "timingSafeEqual a b = (if length a \<noteq> length b then None else Some (a = b))"

section \<open>Requests and responses\<close>

text \<open>
  A request as the middleware sees it: the three headers the listener reads
  (\<open>None\<close> when the header is absent), the raw bytes of the body that
  \<^verbatim>\<open>express.json\<close>'s \<^verbatim>\<open>verify\<close> hook keeps in \<^verbatim>\<open>req.rawBody\<close>, and the parsed
  body \<^verbatim>\<open>req.body\<close>.
\<close>

record request =
  hdr_signature :: "string option"
  hdr_timestamp :: "string option"
  hdr_event_type :: "string option"
  rawBody :: string
  req_body :: json

text \<open>\<^verbatim>\<open>res.status(code).json(body)\<close>\<close>

record response =
  res_status :: nat
  res_body :: json

text \<open>The clock: \<^verbatim>\<open>Date.now()\<close> and \<^verbatim>\<open>new Date().toISOString()\<close>.\<close>

record env =
  nowMs :: int
  nowIso :: string

datatype outcome = Next | Respond response

definition error_response :: "nat \<Rightarrow> string \<Rightarrow> response" where
  "error_response code msg = \<lparr>res_status = code, res_body = JObj [(''error'', JStr msg)]\<rparr>"

section \<open>Signature Verifier (\<^verbatim>\<open>validateWebhookSignature\<close>)\<close>

text \<open>\<^verbatim>\<open>Math.abs(now - webhookTime) > limit\<close>; every comparison with \<^verbatim>\<open>NaN\<close> is false.\<close>

definition abs_diff_exceeds :: "int \<Rightarrow> int option \<Rightarrow> int \<Rightarrow> bool" where
  "abs_diff_exceeds now webhookTime limit =
     (case webhookTime of None \<Rightarrow> False | Some t \<Rightarrow> \<bar>now - t\<bar> > limit)"

text \<open>\<^verbatim>\<open>!header\<close>: the header is absent or the empty string.\<close>

definition missing :: "string option \<Rightarrow> bool" where
  "missing h = (h = None \<or> h = Some [])"

text \<open>
  The middleware. \<open>hmac key msg\<close> stands for
  \<^verbatim>\<open>crypto.createHmac('sha256', key).update(msg).digest()\<close> and \<open>webhookSecret\<close> for
  \<^verbatim>\<open>config.security.webhookSecret\<close>. The signed payload is
  \<^verbatim>\<open>JSON.stringify(req.body)\<close>; \<^verbatim>\<open>req.rawBody\<close> is not read. An exception inside
  the \<^verbatim>\<open>try\<close> block (the RangeError of \<^verbatim>\<open>timingSafeEqual\<close>) is caught and answered
  with status 500.
\<close>

definition validateWebhookSignature ::
    "(string \<Rightarrow> string \<Rightarrow> byte list) \<Rightarrow> string \<Rightarrow> env \<Rightarrow> request \<Rightarrow> outcome" where
  "validateWebhookSignature hmac webhookSecret e req =
     (if missing (hdr_signature req) \<or> missing (hdr_timestamp req)
      then Respond (error_response 401 ''Missing signature or timestamp'')
      else
        let signature = the (hdr_signature req);
            timestamp = the (hdr_timestamp req);
            now = nowMs e div 1000;
            webhookTime = parseInt timestamp
        in if abs_diff_exceeds now webhookTime 300
           then Respond (error_response 401 ''Request too old'')
           else
             let payload = JSON_stringify (req_body req);
                 expectedSignature = digest_hex (hmac webhookSecret (timestamp @ ''.'' @ payload));
                 providedSignature = replace_first ''sha256='' [] signature
             in case timingSafeEqual (Buffer_from_hex expectedSignature)
                                     (Buffer_from_hex providedSignature) of
                  None \<Rightarrow> Respond (error_response 500 ''Signature validation failed'')
                | Some False \<Rightarrow> Respond (error_response 401 ''Invalid signature'')
                | Some True \<Rightarrow> Next)"

section \<open>Payload Validator (\<^verbatim>\<open>utils/validation.js\<close>)\<close>

text \<open>
  The schemas are written with the Joi library (\<^verbatim>\<open>require('joi')\<close>, version 17).
  Each Joi schema is modelled as a function from the path of a value and the value
  (\<open>None\<close> when the key is absent) to the first validation error, if any:
  \<^verbatim>\<open>schema.validate\<close> stops at the first error (\<^verbatim>\<open>abortEarly\<close> is on by default),
  so \<^verbatim>\<open>error.details\<close> has one entry. Unknown keys are accepted
  (\<^verbatim>\<open>allowUnknown: true\<close>). An error has the path of the value, Joi's code for the
  error and the message, which names the value by its path.
\<close>

datatype segment = Key string | Index nat

record verror =
  err_path :: "segment list"
  err_code :: string
  err_message :: string

type_synonym validator = "segment list \<Rightarrow> jsval \<Rightarrow> verror option"

text \<open>A segment as \<^verbatim>\<open>detail.path.join('.')\<close> prints it.\<close>

fun segment_text :: "segment \<Rightarrow> string" where
  "segment_text (Key k) = k"
| "segment_text (Index i) = show_nat i"

text \<open>
  The label of a value in a message: the keys of its path joined by dots, an index of
  an array in brackets, and \<^verbatim>\<open>value\<close> for the root.
\<close>

definition path_label :: "segment list \<Rightarrow> string" where
  "path_label p =
     foldl (\<lambda>label seg.
              case seg of
                Key k \<Rightarrow> (if label = [] then k else label @ ''.'' @ k)
              | Index i \<Rightarrow> label @ ''['' @ show_nat i @ '']'')
           [] p"

definition fail :: "segment list \<Rightarrow> string \<Rightarrow> string \<Rightarrow> verror option" where
  "fail p code what =
     Some \<lparr>err_path = p, err_code = code,
           err_message = [dquote] @ (if path_label p = [] then ''value'' else path_label p)
                         @ [dquote] @ '' '' @ what\<rparr>"

fun first_error :: "verror option list \<Rightarrow> verror option" where
  "first_error [] = None"
| "first_error (None # es) = first_error es"
| "first_error (Some e # es) = Some e"

text \<open>\<^verbatim>\<open>Joi.string()\<close>: a string, and not the empty one. Nothing is converted to a string.\<close>

definition Joi_string :: validator where
  "Joi_string p v =
     (case v of
        None \<Rightarrow> None
      | Some (JStr s) \<Rightarrow>
          if s = [] then fail p ''string.empty'' ''is not allowed to be empty'' else None
      | Some _ \<Rightarrow> fail p ''string.base'' ''must be a string'')"

text \<open>
  \<^verbatim>\<open>Joi.number()\<close>: a number within the safe integers, or a string that converts to
  one (\<^verbatim>\<open>convert\<close> is on by default): white space around a decimal numeral. Joi
  reads the numeral as a double and refuses it as unsafe when the double, printed, does
  not show the digits of the numeral again. A numeral whose value is an integer passes
  exactly when the integer is safe (one case apart: without an exponent, a numeral that
  begins with its dot does not compare equal to what is printed). A numeral whose value
  is a fraction is outside the integers of the model, and Joi's answer for it depends
  on the double nearest to it: the model takes it as unsafe, so that it accepts nothing
  that Joi refuses.
\<close>

definition Joi_number :: validator where
  "Joi_number p v =
     (case v of
        None \<Rightarrow> None
      | Some (JNum n) \<Rightarrow>
          if \<bar>n\<bar> > 9007199254740991 then fail p ''number.unsafe'' ''must be a safe number''
          else None
      | Some (JStr s) \<Rightarrow>
          (case decimal_literal (trim s) of
             None \<Rightarrow> fail p ''number.base'' ''must be a number''
           | Some n \<Rightarrow>
               (case numeral_int n of
                  None \<Rightarrow> fail p ''number.unsafe'' ''must be a safe number''
                | Some i \<Rightarrow>
                    if \<bar>i\<bar> \<le> 9007199254740991
                       \<and> (num_exponent n \<noteq> None \<or> num_integer n \<noteq> [])
                    then None
                    else fail p ''number.unsafe'' ''must be a safe number''))
      | Some _ \<Rightarrow> fail p ''number.base'' ''must be a number'')"

text \<open>The letters \<open>A\<close> to \<open>Z\<close> in lower case.\<close>

definition lower_ascii :: "char \<Rightarrow> char" where
  "lower_ascii c =
     (if 65 \<le> (of_char c :: nat) \<and> (of_char c :: nat) \<le> 90 then char_of (of_char c + 32 :: nat)
      else c)"

text \<open>
  \<^verbatim>\<open>Joi.boolean()\<close>: a boolean, or a string that is \<^verbatim>\<open>true\<close> or \<^verbatim>\<open>false\<close> once
  in lower case (\<^verbatim>\<open>value.toLowerCase()\<close>; only the letters \<open>A\<close> to \<open>Z\<close> can become
  letters of these two words).
\<close>

definition Joi_boolean :: validator where
  "Joi_boolean p v =
     (case v of
        None \<Rightarrow> None
      | Some (JBool b) \<Rightarrow> None
      | Some (JStr s) \<Rightarrow>
          if map lower_ascii s = ''true'' \<or> map lower_ascii s = ''false'' then None
          else fail p ''boolean.base'' ''must be a boolean''
      | Some _ \<Rightarrow> fail p ''boolean.base'' ''must be a boolean'')"

text \<open>
  \<^verbatim>\<open>Joi.object({...})\<close>: an object (not an array, not \<^verbatim>\<open>null\<close>, not a string) whose
  listed keys pass their schemas, checked in order. The schema of a key may depend on
  the sibling keys (\<^verbatim>\<open>.when\<close>), so it takes the properties of the enclosing object.
\<close>

type_synonym keyspec = "string \<times> ((string \<times> json) list \<Rightarrow> validator)"

definition Joi_object :: "keyspec list \<Rightarrow> validator" where
  "Joi_object keys p v =
     (case v of
        None \<Rightarrow> None
      | Some (JObj kvs) \<Rightarrow>
          first_error (map (\<lambda>ks. (snd ks) kvs (p @ [Key (fst ks)]) (map_of kvs (fst ks))) keys)
      | Some _ \<Rightarrow> fail p ''object.base'' ''must be of type object'')"

definition key :: "string \<Rightarrow> validator \<Rightarrow> keyspec" where
  "key k schema = (k, \<lambda>siblings. schema)"

text \<open>
  \<^verbatim>\<open>schema.when(ref, { is: Joi.exist(), then: a, otherwise: b })\<close>: \<open>a\<close> when the sibling
  key \<open>ref\<close> is there (any value but \<^verbatim>\<open>undefined\<close>), else \<open>b\<close>.
\<close>

definition key_when_exist :: "string \<Rightarrow> string \<Rightarrow> validator \<Rightarrow> validator \<Rightarrow> keyspec" where
  "key_when_exist k ref a b = (k, \<lambda>siblings. if map_of siblings ref \<noteq> None then a else b)"

text \<open>
  \<^verbatim>\<open>Joi.array()\<close> and \<^verbatim>\<open>Joi.array().items(schema)\<close>; with one schema for the items,
  the error of an item is the error of that schema at the item's index.
\<close>

definition Joi_array :: validator where
  "Joi_array p v =
     (case v of
        None \<Rightarrow> None
      | Some (JArr xs) \<Rightarrow> None
      | Some _ \<Rightarrow> fail p ''array.base'' ''must be an array'')"

definition Joi_array_items :: "validator \<Rightarrow> validator" where
  "Joi_array_items item p v =
     (case v of
        None \<Rightarrow> None
      | Some (JArr xs) \<Rightarrow>
          first_error (map (\<lambda>ix. item (p @ [Index (fst ix)]) (Some (snd ix))) (enumerate 0 xs))
      | Some _ \<Rightarrow> fail p ''array.base'' ''must be an array'')"

text \<open>
  \<^verbatim>\<open>Joi.alternatives().try(a, b, c)\<close>: the value passes one of the schemas. When it
  passes none, Joi looks at the failures: one failure alone is reported as it is; when
  every failure is the wrong type of the value itself, the types are listed; one failure
  of another kind among them is reported as it is; anything else is reported as no
  match. (A failure against a list of valid values has a rule of its own, which none of
  the alternatives of the listener can raise.)
\<close>

definition error_type :: "verror \<Rightarrow> string" where
  "error_type r = takeWhile (\<lambda>c. c \<noteq> CHR ''.'') (err_code r)"

definition is_base_error :: "segment list \<Rightarrow> verror \<Rightarrow> bool" where
  "is_base_error p r =
     (length (err_path r) = length p \<and> err_code r = error_type r @ ''.base'')"

definition alternatives_errors :: "segment list \<Rightarrow> verror list \<Rightarrow> verror option" where
  "alternatives_errors p failures =
     (if failures = [] then fail p ''alternatives.any'' ''does not match any of the allowed types''
      else if length failures = 1 then Some (hd failures)
      else
        let complex = filter (\<lambda>r. \<not> is_base_error p r) failures
        in if complex = []
           then fail p ''alternatives.types''
                  (''must be one of ['' @ join '', '' (rev (remdups (rev (map error_type failures)))) @ '']'')
           else if length complex = 1 then Some (hd complex)
           else fail p ''alternatives.match'' ''does not match any of the allowed types'')"

definition alternatives_try :: "validator list \<Rightarrow> validator" where
  "alternatives_try schemas p v =
     (case v of
        None \<Rightarrow> None
      | Some x \<Rightarrow>
          let results = map (\<lambda>schema. schema p (Some x)) schemas
          in if None \<in> set results then None
             else alternatives_errors p (map the results))"

text \<open>\<^verbatim>\<open>schema.allow(v, ...)\<close>: the listed values pass, whatever the schema says.\<close>

definition allow :: "json list \<Rightarrow> validator \<Rightarrow> validator" where
  "allow vs schema p v =
     (case v of
        None \<Rightarrow> schema p None
      | Some x \<Rightarrow> if x \<in> set vs then None else schema p (Some x))"

text \<open>
  \<^verbatim>\<open>Joi.string().valid(v, ...)\<close>: only the listed strings pass; the message lists them
  as they are.
\<close>

definition valid :: "string list \<Rightarrow> validator \<Rightarrow> validator" where
  "valid vs schema p v =
     (case v of
        None \<Rightarrow> schema p None
      | Some x \<Rightarrow>
          if x \<in> set (map JStr vs) then None
          else fail p ''any.only''
                 (''must be '' @ (if length vs = 1 then [] else ''one of '')
                  @ ''['' @ join '', '' vs @ '']''))"

definition required :: "validator \<Rightarrow> validator" where
  "required schema p v =
     (case v of None \<Rightarrow> fail p ''any.required'' ''is required'' | Some x \<Rightarrow> schema p (Some x))"

definition optional :: "validator \<Rightarrow> validator" where
  "optional schema = schema"

text \<open>
  \<^verbatim>\<open>schema.default(v)\<close> fills a missing key in the validated copy of the value. The
  controller never reads that copy, and no error comes from a default.
\<close>

definition with_default :: "json \<Rightarrow> validator \<Rightarrow> validator" where
  "with_default d schema = schema"

definition conversationSchema :: validator where
  "conversationSchema =
     Joi_object
       [key ''id'' (required Joi_string),
        key ''title'' (allow [JStr []] Joi_string),
        key ''model'' (with_default (JStr ''gpt-4'') Joi_string),
        key ''create_time'' (required Joi_number),
        key ''update_time'' (required Joi_number),
        key ''project_id'' (allow [JNull] Joi_string),
        key ''openai_thread_id'' (allow [JNull] Joi_string)]"

definition messageSchema :: validator where
  "messageSchema =
     Joi_object
       [key ''id'' (required Joi_string),
        key ''conversation_id'' (required Joi_string),
        key ''role'' (required (valid [''user'', ''assistant'', ''system''] Joi_string)),
        key ''content'' (allow [JNull] (alternatives_try [Joi_string, Joi_object [], Joi_array])),
        key ''parts'' (allow [JNull] (alternatives_try [Joi_string, Joi_object [], Joi_array])),
        key ''create_time'' (required Joi_number),
        key ''parent'' (allow [JNull] Joi_string),
        key ''children'' (allow [JNull] (Joi_array_items Joi_string)),
        key ''author''
          (allow [JNull]
             (Joi_object
                [key ''name'' (allow [JNull] Joi_string),
                 key ''role'' (allow [JNull] Joi_string)]))]"

definition projectSchema :: validator where
  "projectSchema =
     Joi_object
       [key ''id'' (allow [JNull] Joi_string),
        key ''name'' (required Joi_string),
        key ''description'' (allow [JStr []] Joi_string),
        key ''is_starred'' (with_default (JBool False) Joi_boolean),
        key ''chatgpt_project_id'' (allow [JNull] Joi_string)]"

text \<open>
  The envelope. Joi checks a key after the keys its \<^verbatim>\<open>when\<close> refers to, so
  \<^verbatim>\<open>message\<close> is checked before \<^verbatim>\<open>conversation\<close>; the other keys follow in the
  order of the source.
\<close>

definition webhookPayloadSchema :: validator where
  "webhookPayloadSchema =
     Joi_object
       [key ''message'' (optional messageSchema),
        key_when_exist ''conversation'' ''message''
          (optional conversationSchema) (required conversationSchema),
        key ''project'' (optional projectSchema),
        key ''event_type'' (optional Joi_string),
        key ''timestamp'' (optional Joi_number)]"

text \<open>
  \<^verbatim>\<open>validateWebhookPayload\<close>: \<^verbatim>\<open>{isValid: false, errors: [{field, message}]}\<close> with
  \<^verbatim>\<open>field = detail.path.join('.')\<close>, or \<^verbatim>\<open>{isValid: true, data}\<close>.
\<close>

record field_error =
  field :: string
  message :: string

datatype validation = Invalid "field_error list" | Valid

definition validateWebhookPayload :: "json \<Rightarrow> validation" where
  "validateWebhookPayload payload =
     (case webhookPayloadSchema [] (Some payload) of
        Some detail \<Rightarrow>
          Invalid [\<lparr>field = join ''.'' (map segment_text (err_path detail)),
                    message = err_message detail\<rparr>]
      | None \<Rightarrow> Valid)"

section \<open>Upsert Store (\<^verbatim>\<open>services/database.js\<close>)\<close>

text \<open>
  A value bound to a \<^verbatim>\<open>?\<close> of a prepared statement: \<^verbatim>\<open>undefined\<close>, a
  \<^verbatim>\<open>Date\<close> (its time value in milliseconds, \<open>None\<close> for an invalid date) or a JSON
  value, \<open>PVal JNull\<close> being SQL \<^verbatim>\<open>NULL\<close>. A column holds the value that was bound.
\<close>

datatype param = PUndefined | PDate "int option" | PVal json

definition of_js :: "jsval \<Rightarrow> param" where
  "of_js v = (case v of None \<Rightarrow> PUndefined | Some x \<Rightarrow> PVal x)"

record project_row =
  p_name :: param
  p_description :: param
  p_is_starred :: param
  p_chatgpt_project_id :: param

record conversation_row =
  c_conversation_id :: param
  c_title :: param
  c_model :: param
  c_create_time :: param
  c_update_time :: param
  c_project_id :: param
  c_openai_thread_id :: param

record message_row =
  m_id :: param
  m_conversation_id :: param
  m_role :: param
  m_content :: param
  m_parts :: param
  m_create_time :: param
  m_parent :: param
  m_children :: param
  m_author_name :: param

datatype statement =
    SELECT_conversation
  | SELECT_project
  | INSERT_project
  | INSERT_conversation
  | INSERT_message

text \<open>
  The three tables, each a list of rows under their unique key in insertion order, and
  the statements executed so far. Keys are compared exactly. The model has no storage
  failure: the only error of a query is the driver's refusal of an \<^verbatim>\<open>undefined\<close>
  parameter, which happens before anything is sent.
\<close>

record db =
  projects :: "(param \<times> project_row) list"
  conversations :: "(param \<times> conversation_row) list"
  messages :: "(param \<times> message_row) list"
  statements :: "statement list"

text \<open>
  \<^verbatim>\<open>INSERT ... ON DUPLICATE KEY UPDATE\<close>: the row under the key is changed by \<open>upd\<close>, or
  the new row is added when there is none.
\<close>

fun upsert :: "'k \<Rightarrow> 'r \<Rightarrow> ('r \<Rightarrow> 'r) \<Rightarrow> ('k \<times> 'r) list \<Rightarrow> ('k \<times> 'r) list" where
  "upsert k new upd [] = [(k, new)]"
| "upsert k new upd (kr # rest) =
     (if fst kr = k then (k, upd (snd kr)) # rest else kr # upsert k new upd rest)"

text \<open>A thrown \<^verbatim>\<open>Error\<close>, with its \<^verbatim>\<open>message\<close>.\<close>

datatype js_error = Error string

fun error_message :: "js_error \<Rightarrow> string" where
  "error_message (Error m) = m"

text \<open>An asynchronous operation on the store: it throws or returns, and leaves a store.\<close>

type_synonym 'a io = "db \<Rightarrow> (js_error + 'a) \<times> db"

definition io_return :: "'a \<Rightarrow> 'a io" where
  "io_return x d = (Inr x, d)"

definition io_throw :: "js_error \<Rightarrow> 'a io" where
  "io_throw err d = (Inl err, d)"

definition io_bind :: "'a io \<Rightarrow> ('a \<Rightarrow> 'b io) \<Rightarrow> 'b io" where
  "io_bind m f d = (case m d of (Inl err, d') \<Rightarrow> (Inl err, d') | (Inr x, d') \<Rightarrow> f x d')"

definition bind_undefined :: js_error where
  "bind_undefined =
     Error ''Bind parameters must not contain undefined. To pass SQL NULL specify JS null''"

text \<open>
  \<^verbatim>\<open>query(sql, params)\<close>: \<^verbatim>\<open>pool.execute\<close> throws on an \<^verbatim>\<open>undefined\<close>
  parameter; \<^verbatim>\<open>query\<close> logs the error and throws it again. Otherwise the statement
  runs.
\<close>

definition query :: "statement \<Rightarrow> param list \<Rightarrow> (db \<Rightarrow> 'a \<times> db) \<Rightarrow> 'a io" where
  "query stmt params run d =
     (if PUndefined \<in> set params then (Inl bind_undefined, d)
      else let (x, d') = run d in (Inr x, d'\<lparr>statements := statements d' @ [stmt]\<rparr>))"

definition insertConversation :: "conversation_row \<Rightarrow> unit io" where
  "insertConversation conversationData =
     query INSERT_conversation
       [c_conversation_id conversationData, c_title conversationData, c_model conversationData,
        c_create_time conversationData, c_update_time conversationData,
        c_project_id conversationData, c_openai_thread_id conversationData]
       (\<lambda>d. ((), d\<lparr>conversations :=
                 upsert (c_conversation_id conversationData) conversationData
                   (\<lambda>row. row\<lparr>c_title := c_title conversationData,
                              c_model := c_model conversationData,
                              c_update_time := c_update_time conversationData,
                              c_project_id := c_project_id conversationData,
                              c_openai_thread_id := c_openai_thread_id conversationData\<rparr>)
                   (conversations d)\<rparr>))"

definition insertMessage :: "message_row \<Rightarrow> unit io" where
  "insertMessage messageData =
     query INSERT_message
       [m_id messageData, m_conversation_id messageData, m_role messageData,
        m_content messageData, m_parts messageData, m_create_time messageData,
        m_parent messageData, m_children messageData, m_author_name messageData]
       (\<lambda>d. ((), d\<lparr>messages :=
                 upsert (m_id messageData) messageData
                   (\<lambda>row. row\<lparr>m_role := m_role messageData,
                              m_content := m_content messageData,
                              m_parts := m_parts messageData,
                              m_create_time := m_create_time messageData,
                              m_parent := m_parent messageData,
                              m_children := m_children messageData,
                              m_author_name := m_author_name messageData\<rparr>)
                   (messages d)\<rparr>))"

text \<open>\<^verbatim>\<open>results[0] || null\<close>: the row, or \<open>None\<close> for \<^verbatim>\<open>null\<close>.\<close>

definition getConversation :: "param \<Rightarrow> conversation_row option io" where
  "getConversation conversationId =
     query SELECT_conversation [conversationId] (\<lambda>d. (map_of (conversations d) conversationId, d))"

definition getProject :: "param \<Rightarrow> project_row option io" where
  "getProject projectName =
     query SELECT_project [projectName] (\<lambda>d. (map_of (projects d) projectName, d))"

definition createProject :: "project_row \<Rightarrow> unit io" where
  "createProject projectData =
     query INSERT_project
       [p_name projectData, p_description projectData, p_is_starred projectData,
        p_chatgpt_project_id projectData]
       (\<lambda>d. ((), d\<lparr>projects :=
                 upsert (p_name projectData) projectData
                   (\<lambda>row. row\<lparr>p_description := p_description projectData,
                              p_chatgpt_project_id := p_chatgpt_project_id projectData\<rparr>)
                   (projects d)\<rparr>))"

section \<open>Event Router (\<^verbatim>\<open>WebhookController\<close>)\<close>

text \<open>\<^verbatim>\<open>v.key\<close>, once \<open>v\<close> is known to be neither \<^verbatim>\<open>undefined\<close> nor \<^verbatim>\<open>null\<close>.\<close>

definition member :: "jsval \<Rightarrow> string \<Rightarrow> jsval" where
  "member v k = (case v of None \<Rightarrow> None | Some ob \<Rightarrow> get_prop ob k)"

text \<open>The TypeError of a property read on \<^verbatim>\<open>undefined\<close> or \<^verbatim>\<open>null\<close>.\<close>

definition type_error_reading :: "jsval \<Rightarrow> string \<Rightarrow> js_error" where
  "type_error_reading v k =
     Error (''Cannot read properties of '' @ (if v = None then ''undefined'' else ''null'')
            @ '' (reading '' @ [CHR 0x27] @ k @ [CHR 0x27] @ '')'')"

text \<open>
  \<^verbatim>\<open>String(v)\<close> of a JSON value; an array prints its elements joined by commas,
  with nothing for a \<^verbatim>\<open>null\<close> element.
\<close>

fun ToString :: "json \<Rightarrow> string"
  and element_strings :: "json list \<Rightarrow> string list" where
  "ToString JNull = ''null''"
| "ToString (JBool b) = (if b then ''true'' else ''false'')"
| "ToString (JNum n) = show_int n"
| "ToString (JStr s) = s"
| "ToString (JArr xs) = join '','' (element_strings xs)"
| "ToString (JObj kvs) = ''[object Object]''"
| "element_strings [] = []"
| "element_strings (x # xs) = (if x = JNull then [] else ToString x) # element_strings xs"

text \<open>
  \<^verbatim>\<open>Number(v)\<close>, as the multiplication in \<^verbatim>\<open>v * 1000\<close> converts its operand;
  \<open>None\<close> is \<^verbatim>\<open>NaN\<close>. An array or an object is converted through its string.
\<close>

fun to_number :: "jsval \<Rightarrow> int option" where
  "to_number None = None"
| "to_number (Some JNull) = Some 0"
| "to_number (Some (JBool b)) = Some (if b then 1 else 0)"
| "to_number (Some (JNum n)) = Some n"
| "to_number (Some (JStr s)) = string_to_number s"
| "to_number (Some (JArr xs)) = string_to_number (ToString (JArr xs))"
| "to_number (Some (JObj kvs)) = string_to_number (ToString (JObj kvs))"

text \<open>
  \<^verbatim>\<open>new Date(v * 1000)\<close>: a date whose time value is within \<open>8.64 * 10^15\<close>
  milliseconds of the epoch, else an invalid date.
\<close>

definition new_Date_seconds :: "jsval \<Rightarrow> param" where
  "new_Date_seconds v =
     PDate (case to_number v of
              None \<Rightarrow> None
            | Some n \<Rightarrow> if \<bar>n * 1000\<bar> \<le> 8640000000000000 then Some (n * 1000) else None)"

text \<open>\<^verbatim>\<open>v ? JSON.stringify(v) : null\<close>\<close>

definition stringify_or_null :: "jsval \<Rightarrow> param" where
  "stringify_or_null v = (if truthy v then PVal (JStr (JSON_stringify (the v))) else PVal JNull)"

text \<open>
  An object literal in a response: a property whose value is \<^verbatim>\<open>undefined\<close> is left
  out when \<^verbatim>\<open>res.json\<close> serialises it.
\<close>

definition object_of :: "(string \<times> jsval) list \<Rightarrow> json" where
  "object_of kvs = JObj (List.map_filter (\<lambda>kv. map_option (Pair (fst kv)) (snd kv)) kvs)"

text \<open>
  The receiver of a method call. \<^verbatim>\<open>routes/webhook.js\<close> hands
  \<^verbatim>\<open>webhookController.handleChatGPTWebhook\<close> to the router as a plain function, not
  bound to the controller, and the router calls it as one: inside it \<^verbatim>\<open>this\<close> is
  \<^verbatim>\<open>undefined\<close> (a class body is strict code), and \<^verbatim>\<open>this.handleX\<close> throws a
  TypeError. Called as a method of the controller, \<^verbatim>\<open>this\<close> is the controller.
\<close>

datatype receiver = This_undefined | This_controller

definition this_method :: "receiver \<Rightarrow> string \<Rightarrow> 'a io \<Rightarrow> 'a io" where
  "this_method self name call =
     (case self of
        This_undefined \<Rightarrow> io_throw (type_error_reading None name)
      | This_controller \<Rightarrow> call)"

definition handleConversationCreated :: "json \<Rightarrow> json io" where
  "handleConversationCreated payload =
     (let conversation = get_prop payload ''conversation'';
          project = get_prop payload ''project''
      in io_bind
           (if truthy project
            then io_bind (getProject (of_js (member project ''name'')))
                   (\<lambda>existingProject.
                      if existingProject = None
                      then createProject
                             \<lparr>p_name = of_js (member project ''name''),
                              p_description =
                                of_js (js_or (member project ''description'') (Some (JStr []))),
                              p_is_starred = PVal (JBool False),
                              p_chatgpt_project_id = of_js (member project ''id'')\<rparr>
                      else io_return ())
            else io_return ())
           (\<lambda>u. if nullish conversation
                then io_throw (type_error_reading conversation ''id'')
                else io_bind
                       (insertConversation
                          \<lparr>c_conversation_id = of_js (member conversation ''id''),
                           c_title =
                             of_js (js_or (member conversation ''title'') (Some (JStr ''Untitled''))),
                           c_model =
                             of_js (js_or (member conversation ''model'') (Some (JStr ''gpt-4''))),
                           c_create_time = new_Date_seconds (member conversation ''create_time''),
                           c_update_time = new_Date_seconds (member conversation ''update_time''),
                           c_project_id =
                             (if truthy project then of_js (member project ''id'') else PVal JNull),
                           c_openai_thread_id =
                             of_js (js_or (member conversation ''openai_thread_id'') (Some JNull))\<rparr>)
                       (\<lambda>u. io_return
                              (object_of
                                 [(''status'', Some (JStr ''conversation_created'')),
                                  (''conversationId'', member conversation ''id'')]))))"

definition handleConversationUpdated :: "json \<Rightarrow> json io" where
  "handleConversationUpdated payload =
     (let conversation = get_prop payload ''conversation''
      in if nullish conversation
         then io_throw (type_error_reading conversation ''id'')
         else io_bind
                (insertConversation
                   \<lparr>c_conversation_id = of_js (member conversation ''id''),
                    c_title =
                      of_js (js_or (member conversation ''title'') (Some (JStr ''Untitled''))),
                    c_model =
                      of_js (js_or (member conversation ''model'') (Some (JStr ''gpt-4''))),
                    c_create_time = new_Date_seconds (member conversation ''create_time''),
                    c_update_time = new_Date_seconds (member conversation ''update_time''),
                    c_project_id =
                      of_js (js_or (member conversation ''project_id'') (Some JNull)),
                    c_openai_thread_id =
                      of_js (js_or (member conversation ''openai_thread_id'') (Some JNull))\<rparr>)
                (\<lambda>u. io_return
                       (object_of
                          [(''status'', Some (JStr ''conversation_updated'')),
                           (''conversationId'', member conversation ''id'')])))"

definition handleMessageCreated :: "receiver \<Rightarrow> json \<Rightarrow> json io" where
  "handleMessageCreated self payload =
     (let message = get_prop payload ''message'';
          conversation = get_prop payload ''conversation''
      in io_bind
           (if truthy conversation
            then io_bind (getConversation (of_js (member conversation ''id'')))
                   (\<lambda>existingConv.
                      if existingConv = None
                      then this_method self ''handleConversationCreated''
                             (io_bind
                                (handleConversationCreated
                                   (JObj [(''conversation'', the conversation)]))
                                (\<lambda>r. io_return ()))
                      else io_return ())
            else io_return ())
           (\<lambda>u. if nullish message
                then io_throw (type_error_reading message ''id'')
                else io_bind
                       (insertMessage
                          \<lparr>m_id = of_js (member message ''id''),
                           m_conversation_id =
                             of_js (js_or (member message ''conversation_id'')
                                          (opt_chain conversation ''id'')),
                           m_role = of_js (js_or (member message ''role'') (Some (JStr ''user''))),
                           m_content = stringify_or_null (member message ''content''),
                           m_parts = stringify_or_null (member message ''parts''),
                           m_create_time = new_Date_seconds (member message ''create_time''),
                           m_parent = of_js (js_or (member message ''parent'') (Some JNull)),
                           m_children = stringify_or_null (member message ''children''),
                           m_author_name =
                             of_js (js_or (opt_chain (member message ''author'') ''name'')
                                          (Some JNull))\<rparr>)
                       (\<lambda>u. io_return
                              (object_of
                                 [(''status'', Some (JStr ''message_created'')),
                                  (''messageId'', member message ''id'')]))))"

definition handleMessageUpdated :: "json \<Rightarrow> json io" where
  "handleMessageUpdated payload =
     (let message = get_prop payload ''message''
      in if nullish message
         then io_throw (type_error_reading message ''id'')
         else io_bind
                (insertMessage
                   \<lparr>m_id = of_js (member message ''id''),
                    m_conversation_id = of_js (member message ''conversation_id''),
                    m_role = of_js (js_or (member message ''role'') (Some (JStr ''user''))),
                    m_content = stringify_or_null (member message ''content''),
                    m_parts = stringify_or_null (member message ''parts''),
                    m_create_time = new_Date_seconds (member message ''create_time''),
                    m_parent = of_js (js_or (member message ''parent'') (Some JNull)),
                    m_children = stringify_or_null (member message ''children''),
                    m_author_name =
                      of_js (js_or (opt_chain (member message ''author'') ''name'') (Some JNull))\<rparr>)
                (\<lambda>u. io_return
                       (object_of
                          [(''status'', Some (JStr ''message_updated'')),
                           (''messageId'', member message ''id'')])))"

text \<open>\<^verbatim>\<open>req.headers['x-event-type'] || 'unknown'\<close>\<close>

definition event_type_of :: "request \<Rightarrow> string" where
  "event_type_of req = (if missing (hdr_event_type req) then ''unknown'' else the (hdr_event_type req))"

definition details_json :: "field_error list \<Rightarrow> json" where
  "details_json errs =
     JArr (map (\<lambda>err. JObj [(''field'', JStr (field err)), (''message'', JStr (message err))]) errs)"

text \<open>
  The route handler. Validation comes first and answers 400 without touching the store.
  An exception of a handler is caught and answered with status 500; what the handler
  wrote before it threw stays written (the statements run outside any transaction).
  The calls of the logger change neither the response nor the store and are left out.
\<close>

definition handleChatGPTWebhook :: "receiver \<Rightarrow> env \<Rightarrow> request \<Rightarrow> db \<Rightarrow> response \<times> db" where
  "handleChatGPTWebhook self e req d =
     (let payload = req_body req;
          eventType = event_type_of req
      in case validateWebhookPayload payload of
           Invalid errs \<Rightarrow>
             (\<lparr>res_status = 400,
               res_body = JObj [(''error'', JStr ''Invalid payload''),
                                (''details'', details_json errs)]\<rparr>, d)
         | Valid \<Rightarrow>
             (case (if eventType = ''conversation.created''
                    then this_method self ''handleConversationCreated''
                           (handleConversationCreated payload)
                    else if eventType = ''conversation.updated''
                    then this_method self ''handleConversationUpdated''
                           (handleConversationUpdated payload)
                    else if eventType = ''message.created''
                    then this_method self ''handleMessageCreated''
                           (handleMessageCreated self payload)
                    else if eventType = ''message.updated''
                    then this_method self ''handleMessageUpdated''
                           (handleMessageUpdated payload)
                    else io_return (JObj [(''status'', JStr ''ignored''),
                                          (''eventType'', JStr eventType)])) d of
                (Inl err, d') \<Rightarrow>
                  (\<lparr>res_status = 500,
                    res_body = JObj [(''error'', JStr ''Internal server error''),
                                     (''message'', JStr (error_message err)),
                                     (''timestamp'', JStr (nowIso e))]\<rparr>, d')
              | (Inr result, d') \<Rightarrow>
                  (\<lparr>res_status = 200,
                    res_body = JObj [(''status'', JStr ''success''),
                                     (''eventType'', JStr eventType),
                                     (''result'', result),
                                     (''timestamp'', JStr (nowIso e))]\<rparr>, d')))"

text \<open>
  \<^verbatim>\<open>router.post('/webhook/chatgpt', webhookRateLimit, validateWebhookSignature,
  webhookController.handleChatGPTWebhook)\<close>: the verifier, then the handler as a plain
  function. The rate limiter, which counts requests per address, stands before both and
  is not modelled.
\<close>

definition post_webhook_chatgpt ::
    "(string \<Rightarrow> string \<Rightarrow> byte list) \<Rightarrow> string \<Rightarrow> env \<Rightarrow> request \<Rightarrow> db \<Rightarrow> response \<times> db" where
  "post_webhook_chatgpt hmac webhookSecret e req d =
     (case validateWebhookSignature hmac webhookSecret e req of
        Respond res \<Rightarrow> (res, d)
      | Next \<Rightarrow> handleChatGPTWebhook This_undefined e req d)"

section \<open>\<^verbatim>\<open>ChatBETODatabaseService.insertMessage\<close> (\<^verbatim>\<open>services/chatbeto-database.js\<close>)\<close>

text \<open>
  The second store service keeps its own \<^verbatim>\<open>messages\<close> table. A row holds the values
  bound by \<^verbatim>\<open>insertMessage\<close>; \<^verbatim>\<open>created_at\<close> and \<^verbatim>\<open>updated_at\<close> are set by the
  database's \<^verbatim>\<open>NOW()\<close>. The pool is taken as initialised and reachable.
\<close>

record chat_message_row =
  cm_id :: json
  cm_conversation_id :: json
  cm_role :: json
  cm_content :: json
  cm_content_type :: json
  cm_author_name :: json
  cm_parent_message_id :: json
  cm_created_at_timestamp_ms :: "int option"
  cm_created_at :: string
  cm_status :: json
  cm_updated_at :: "string option"

record chat_db =
  chat_messages :: "(json \<times> chat_message_row) list"
  chat_executed :: nat

text \<open>The \<^verbatim>\<open>options\<close> argument: each property may be missing.\<close>

record insert_options =
  opt_id :: jsval
  opt_createTime :: jsval
  opt_authorName :: jsval
  opt_parentMessageId :: jsval
  opt_contentType :: jsval

text \<open>\<^verbatim>\<open>Date.now()\<close>, a fresh \<^verbatim>\<open>uuidv4()\<close> and the database's \<^verbatim>\<open>NOW()\<close>.\<close>

record chat_env =
  chat_nowMs :: int
  chat_uuid :: string
  chat_sql_now :: string

record insert_result =
  r_success :: bool
  r_messageId :: json
  r_conversationId :: json

definition is_string :: "jsval \<Rightarrow> bool" where
  "is_string v = (case v of Some (JStr s) \<Rightarrow> True | _ \<Rightarrow> False)"

definition string_of :: "jsval \<Rightarrow> string" where
  "string_of v = (case v of Some (JStr s) \<Rightarrow> s | _ \<Rightarrow> [])"

definition allowed_roles :: "jsval list" where
  "allowed_roles =
     [Some (JStr ''user''), Some (JStr ''assistant''), Some (JStr ''system''), Some (JStr ''tool'')]"

text \<open>
  The checks of the arguments run before the \<^verbatim>\<open>try\<close> block that builds and executes
  the statement; each throws. (\<open>CHR 0xED\<close> is the accented letter of the source's
  message.) \<^verbatim>\<open>createTime * 1000\<close> is the time in milliseconds; for the default
  \<^verbatim>\<open>Date.now() / 1000\<close> it is \<^verbatim>\<open>Date.now()\<close> again, up to the rounding of the
  division. \<^verbatim>\<open>affectedRows\<close> and \<^verbatim>\<open>insertId\<close>, which the driver reports, are left
  out of the result.
\<close>

definition ChatBETO_insertMessage ::
    "chat_env \<Rightarrow> jsval \<Rightarrow> jsval \<Rightarrow> jsval \<Rightarrow> insert_options \<Rightarrow> chat_db
       \<Rightarrow> (js_error + insert_result) \<times> chat_db" where
  "ChatBETO_insertMessage e conversationId role content options st =
     (if \<not> truthy conversationId \<or> \<not> is_string conversationId
      then (Inl (Error ''conversationId es requerido y debe ser un string''), st)
      else if \<not> truthy role \<or> role \<notin> set allowed_roles
      then (Inl (Error ''role debe ser uno de: user, assistant, system, tool''), st)
      else if \<not> truthy content \<or> \<not> is_string content
      then (Inl (Error (''content es requerido y debe ser un string no vac'' @ [CHR 0xED] @ ''o'')), st)
      else
        let cleanContent = trim (string_of content)
        in if length cleanContent = 0
           then (Inl (Error (''El contenido del mensaje no puede estar vac'' @ [CHR 0xED] @ ''o'')), st)
           else
             let messageId = the (js_or (opt_id options) (Some (JStr (chat_uuid e))));
                 createdMs = (if truthy (opt_createTime options)
                              then map_option (\<lambda>n. n * 1000) (to_number (opt_createTime options))
                              else Some (chat_nowMs e));
                 authorName = the (js_or (opt_authorName options) (Some JNull));
                 parentMessageId = the (js_or (opt_parentMessageId options) (Some JNull));
                 contentType = the (js_or (opt_contentType options) (Some (JStr ''text'')));
                 new = \<lparr>cm_id = messageId,
                        cm_conversation_id = the conversationId,
                        cm_role = the role,
                        cm_content = JStr cleanContent,
                        cm_content_type = contentType,
                        cm_author_name = authorName,
                        cm_parent_message_id = parentMessageId,
                        cm_created_at_timestamp_ms = createdMs,
                        cm_created_at = chat_sql_now e,
                        cm_status = JStr ''finished_successfully'',
                        cm_updated_at = None\<rparr>
             in (Inr \<lparr>r_success = True, r_messageId = messageId,
                       r_conversationId = the conversationId\<rparr>,
                 st\<lparr>chat_messages :=
                       upsert messageId new
                         (\<lambda>row. row\<lparr>cm_role := the role,
                                    cm_content := JStr cleanContent,
                                    cm_content_type := contentType,
                                    cm_author_name := authorName,
                                    cm_updated_at := Some (chat_sql_now e)\<rparr>)
                         (chat_messages st),
                    chat_executed := chat_executed st + 1\<rparr>))"

text \<open>
  \<^verbatim>\<open>cleanMessageContent\<close>, the normalisation of a content in this service: white
  space is trimmed, the control characters are removed, and the line ends are made line
  feeds. A content that is \<^verbatim>\<open>null\<close> or empty gives the empty string; on any other
  value that is not a string \<^verbatim>\<open>content.trim\<close> is not a function. The round trip
  through a UTF-8 buffer that follows changes nothing in a string of the model. The
  service calls it on the contents it reads for a report
  (\<^verbatim>\<open>getMessagesForReport\<close>), not on the contents it stores.
\<close>

definition is_control :: "char \<Rightarrow> bool" where
  "is_control c = ((of_char c :: nat) \<le> 31 \<or> (of_char c :: nat) = 127)"

text \<open>The two replacements of line ends: carriage return and line feed, then carriage return alone.\<close>

fun replace_crlf :: "string \<Rightarrow> string" where
  "replace_crlf (c1 # c2 # cs) =
     (if c1 = CHR 0x0D \<and> c2 = CHR 0x0A then CHR 0x0A # replace_crlf cs
      else c1 # replace_crlf (c2 # cs))"
| "replace_crlf cs = cs"

definition replace_cr :: "string \<Rightarrow> string" where
  "replace_cr s = map (\<lambda>c. if c = CHR 0x0D then CHR 0x0A else c) s"

definition cleanMessageContent :: "json \<Rightarrow> js_error + string" where
  "cleanMessageContent content =
     (if \<not> truthy (Some content) then Inr []
      else case content of
             JStr s \<Rightarrow> Inr (replace_cr (replace_crlf (filter (\<lambda>c. \<not> is_control c) (trim s))))
           | _ \<Rightarrow> Inl (Error ''content.trim is not a function''))"

section \<open>Example inputs\<close>

text \<open>
  The verifier is modelled for every digest function. To run it on a concrete request a
  digest is needed: \<open>example_mac\<close> is a stand-in of 32 bytes (the reversed message, then
  the key, cut or filled with zeros), with none of the strength of HMAC-SHA256.
\<close>

definition example_mac :: "string \<Rightarrow> string \<Rightarrow> byte list" where
  "example_mac k msg = take 32 (map (\<lambda>c. of_nat (of_char c)) (rev msg @ k) @ replicate 32 0)"

definition example_secret :: string where
  "example_secret = ''test-webhook-secret''"

text \<open>Clocks 299 and 301 seconds after the timestamp \<open>1700000000\<close>.\<close>

definition env_299 :: env where
  "env_299 = \<lparr>nowMs = 1700000299000, nowIso = ''2023-11-14T22:18:19.000Z''\<rparr>"

definition env_301 :: env where
  "env_301 = \<lparr>nowMs = 1700000301000, nowIso = ''2023-11-14T22:18:21.000Z''\<rparr>"

definition replayed_request :: request where
  "replayed_request =
     \<lparr>hdr_signature = Some ''sha256=00'',
      hdr_timestamp = Some ''1700000000'',
      hdr_event_type = Some ''message.created'',
      rawBody = ''{}'',
      req_body = JObj []\<rparr>"

text \<open>An empty store, and two deliveries of the message \<open>m1\<close> that differ in every column.\<close>

definition empty_db :: db where
  "empty_db = \<lparr>projects = [], conversations = [], messages = [], statements = []\<rparr>"

definition first_delivery :: message_row where
  "first_delivery =
     \<lparr>m_id = PVal (JStr ''m1''),
      m_conversation_id = PVal (JStr ''c1''),
      m_role = PVal (JStr ''user''),
      m_content = PVal (JStr ''first''),
      m_parts = PVal JNull,
      m_create_time = PDate (Some 1700000000000),
      m_parent = PVal JNull,
      m_children = PVal JNull,
      m_author_name = PVal JNull\<rparr>"

definition second_delivery :: message_row where
  "second_delivery =
     \<lparr>m_id = PVal (JStr ''m1''),
      m_conversation_id = PVal (JStr ''c2''),
      m_role = PVal (JStr ''assistant''),
      m_content = PVal (JStr ''second''),
      m_parts = PVal (JStr ''[]''),
      m_create_time = PDate (Some 1700000500000),
      m_parent = PVal (JStr ''m0''),
      m_children = PVal (JStr ''[]''),
      m_author_name = PVal (JStr ''Bot'')\<rparr>"

definition example_chat_env :: chat_env where
  "example_chat_env =
     \<lparr>chat_nowMs = 1700000000000,
      chat_uuid = ''123e4567-e89b-42d3-a456-426614174000'',
      chat_sql_now = ''2023-11-14 22:13:20''\<rparr>"

definition empty_chat_db :: chat_db where
  "empty_chat_db = \<lparr>chat_messages = [], chat_executed = 0\<rparr>"

definition no_options :: insert_options where
  "no_options =
     \<lparr>opt_id = None, opt_createTime = None, opt_authorName = None,
      opt_parentMessageId = None, opt_contentType = None\<rparr>"

text \<open>
  A request signed the way the verifier computes the signature: over the timestamp, a dot
  and \<^verbatim>\<open>JSON.stringify\<close> of the parsed body.
\<close>

definition signed_request :: "string \<Rightarrow> string \<Rightarrow> json \<Rightarrow> request" where
  "signed_request ts event body =
     \<lparr>hdr_signature =
        Some (''sha256='' @ digest_hex (example_mac example_secret (ts @ ''.'' @ JSON_stringify body))),
      hdr_timestamp = Some ts,
      hdr_event_type = Some event,
      rawBody = JSON_stringify body,
      req_body = body\<rparr>"

text \<open>A clock five seconds after the timestamp \<open>1700000000\<close>.\<close>

definition example_env :: env where
  "example_env = \<lparr>nowMs = 1700000005123, nowIso = ''2023-11-14T22:13:25.123Z''\<rparr>"

definition conversation_c1 :: json where
  "conversation_c1 =
     JObj [(''id'', JStr ''c1''), (''title'', JStr ''T''),
           (''create_time'', JNum 1700000000), (''update_time'', JNum 1700000000)]"

definition message_m1 :: json where
  "message_m1 =
     JObj [(''id'', JStr ''m1''), (''conversation_id'', JStr ''c1''), (''role'', JStr ''user''),
           (''content'', JStr ''hi''), (''create_time'', JNum 1700000000)]"

text \<open>The envelope of the specification's end-to-end scenario.\<close>

definition envelope_m1_c1 :: json where
  "envelope_m1_c1 = JObj [(''message'', message_m1), (''conversation'', conversation_c1)]"

text \<open>An envelope whose conversation has no \<^verbatim>\<open>id\<close>, and no message.\<close>

definition envelope_without_id :: json where
  "envelope_without_id =
     JObj [(''conversation'',
            JObj [(''title'', JStr ''T''), (''create_time'', JNum 1700000000),
                  (''update_time'', JNum 1700000000)])]"

text \<open>
  A body as sent, with a space after the colon, its parsed form, and a request signed
  over the bytes as sent. \<^verbatim>\<open>JSON.stringify\<close> of the parsed form has no space.
\<close>

definition spaced_raw_body :: string where
  \<open>spaced_raw_body = ''{"a": 1}''\<close>

definition raw_signed_request :: request where
  "raw_signed_request =
     \<lparr>hdr_signature =
        Some (''sha256='' @ digest_hex (example_mac example_secret (''1700000000.'' @ spaced_raw_body))),
      hdr_timestamp = Some ''1700000000'',
      hdr_event_type = Some ''conversation.created'',
      rawBody = spaced_raw_body,
      req_body = JObj [(''a'', JNum 1)]\<rparr>"

text \<open>A request whose signature is four hexadecimal digits, and one whose signature is
  the right one followed by one more digit.\<close>

definition short_signature_request :: request where
  "short_signature_request =
     (signed_request ''1700000000'' ''conversation.created'' (JObj [(''conversation'', conversation_c1)]))
       \<lparr>hdr_signature := Some ''sha256=abcd''\<rparr>"

definition long_signature_request :: request where
  "long_signature_request =
     (signed_request ''1700000000'' ''something.else'' (JObj [(''conversation'', conversation_c1)]))
       \<lparr>hdr_signature :=
          Some (''sha256=''
                @ digest_hex (example_mac example_secret
                    (''1700000000.'' @ JSON_stringify (JObj [(''conversation'', conversation_c1)])))
                @ ''0'')\<rparr>"

text \<open>An envelope whose message has no content.\<close>

definition envelope_no_content :: json where
  "envelope_no_content =
     JObj [(''message'',
            JObj [(''id'', JStr ''m1''), (''conversation_id'', JStr ''c1''), (''role'', JStr ''user''),
                  (''create_time'', JNum 1700000000)])]"

section \<open>The invariant of a stored message\<close>

text \<open>
  The data model asks of a stored message that its role is in the closed set and that
  its content is not empty after normalisation. The normalisation is
  \<^verbatim>\<open>cleanMessageContent\<close>; \<^verbatim>\<open>ChatBETODatabaseService.insertMessage\<close> itself only
  trims the content before it looks whether anything is left.
\<close>

definition closed_role_set :: "json set" where
  "closed_role_set = {JStr ''user'', JStr ''assistant'', JStr ''system'', JStr ''tool''}"

definition normalised_nonempty :: "json \<Rightarrow> bool" where
  "normalised_nonempty v = (case cleanMessageContent v of Inr s \<Rightarrow> s \<noteq> [] | Inl err \<Rightarrow> False)"

definition trimmed_nonempty :: "json \<Rightarrow> bool" where
  "trimmed_nonempty v = (case v of JStr s \<Rightarrow> trim s \<noteq> [] | _ \<Rightarrow> False)"

text \<open>A request whose message has no content, and a content of one control character.\<close>

definition no_content_request :: request where
  "no_content_request = signed_request ''1700000000'' ''message.created'' envelope_no_content"

definition control_content :: string where
  "control_content = [CHR 0x01]"

section \<open>Properties of the library functions\<close>

subsection \<open>Hexadecimal digests\<close>

lemma digit_of_hex_digit_all: "\<forall>n \<in> set [0..<16]. digit_of (hex_digit n) = n"
  by code_simp

lemma digit_of_hex_digit: "n < 16 \<Longrightarrow> digit_of (hex_digit n) = n"
  using digit_of_hex_digit_all by simp

text \<open>Decoding the hexadecimal form of a digest gives the digest back.\<close>

lemma Buffer_from_hex_digest_hex: "Buffer_from_hex (digest_hex bs) = bs"
proof (induction bs)
  case Nil
  then show ?case by (simp add: digest_hex_def)
next
  case (Cons b bs)
  have "unat b < 256"
    using unsigned_less [of b, where ?'a = nat] by simp
  then have lt: "unat b div 16 < 16"
    by simp
  have "(of_nat (16 * (unat b div 16) + unat b mod 16) :: byte) = b"
    by simp
  with Cons lt show ?case
    by (simp add: digest_hex_def is_digit_def digit_of_hex_digit)
qed

lemma replace_first_prefix: "replace_first pat rep (pat @ s) = rep @ s"
proof (cases "pat @ s")
  case Nil
  then show ?thesis by simp
next
  case (Cons a list)
  have t: "take (length pat) (a # list) = pat" and d: "drop (length pat) (a # list) = s"
    using Cons by (metis append_eq_conv_conj)+
  show ?thesis
    unfolding Cons by (simp add: t d del: take_Cons' drop_Cons')
qed

subsection \<open>Decimal numerals\<close>

lemma digit_char_cases: "\<forall>d \<in> set [0..<10]. digit_of (digit_char d) = d"
  by code_simp

lemma digit_of_digit_char: "d < 10 \<Longrightarrow> digit_of (digit_char d) = d"
  using digit_char_cases by simp

lemma is_digit_digit_char: "is_digit 10 (digit_char d)"
proof -
  have "digit_char d = digit_char (d mod 10)"
    by (simp add: digit_char_def)
  then show ?thesis
    by (simp add: is_digit_def digit_of_digit_char)
qed

lemma show_nat_digits: "c \<in> set (show_nat n) \<Longrightarrow> is_digit 10 c"
proof (induction n rule: show_nat.induct)
  case (1 n)
  show ?case
  proof (cases "n < 10")
    case True
    with 1(2) show ?thesis
      by (subst (asm) show_nat.simps) (simp add: is_digit_digit_char)
  next
    case False
    with 1 show ?thesis
      by (subst (asm) (2) show_nat.simps) (auto simp: is_digit_digit_char)
  qed
qed

lemma show_nat_nonempty: "show_nat n \<noteq> []"
  by (subst show_nat.simps) simp

lemma digits_value_snoc: "digits_value r (s @ [c]) = digits_value r s * r + digit_of c"
  by (simp add: digits_value_def)

lemma digits_value_show_nat: "digits_value 10 (show_nat n) = n"
proof (induction n rule: show_nat.induct)
  case (1 n)
  show ?case
  proof (cases "n < 10")
    case True
    then show ?thesis
      by (subst show_nat.simps) (simp add: digits_value_def digit_of_digit_char)
  next
    case False
    then have "digits_value 10 (show_nat (n div 10)) = n div 10"
      using 1 by simp
    with False show ?thesis
      by (subst show_nat.simps) (simp add: digits_value_snoc digit_of_digit_char)
  qed
qed

lemma decimal_digit_facts:
  assumes "is_digit 10 c"
  shows "\<not> is_ws c" "c \<noteq> CHR ''+''" "c \<noteq> CHR ''-''" "c \<noteq> CHR ''x''" "c \<noteq> CHR ''X''"
  using assms by (auto simp: is_digit_def digit_of_def is_ws_def Let_def split: if_splits)

lemma take2_not_hex:
  assumes "\<forall>c \<in> set s. c \<noteq> CHR ''x'' \<and> c \<noteq> CHR ''X''"
  shows "take 2 s \<noteq> ''0x''" "take 2 s \<noteq> ''0X''"
proof -
  have "set (take 2 s) \<subseteq> set s" by (rule set_take_subset)
  with assms have "CHR ''x'' \<notin> set (take 2 s)" "CHR ''X'' \<notin> set (take 2 s)" by auto
  then show "take 2 s \<noteq> ''0x''" "take 2 s \<noteq> ''0X''" by auto
qed

text \<open>\<^verbatim>\<open>parseInt\<close> reads the decimal form of a natural number back.\<close>

lemma parseInt_show_nat: "parseInt (show_nat n) = Some (int n)"
proof -
  let ?s = "show_nat n"
  have ne: "?s \<noteq> []" by (rule show_nat_nonempty)
  then have hd_in: "hd ?s \<in> set ?s" by simp
  then have hd_digit: "is_digit 10 (hd ?s)" by (rule show_nat_digits)
  have dw: "dropWhile is_ws ?s = ?s"
    using ne decimal_digit_facts(1) [OF hd_digit] by (cases ?s) auto
  have sign: "hd ?s \<noteq> CHR ''+''" "hd ?s \<noteq> CHR ''-''"
    using decimal_digit_facts [OF hd_digit] by blast+
  have nohex: "take 2 ?s \<noteq> ''0x''" "take 2 ?s \<noteq> ''0X''"
    using take2_not_hex [of ?s] show_nat_digits decimal_digit_facts by blast+
  have tw: "takeWhile (is_digit 10) ?s = ?s"
    using show_nat_digits by (simp add: takeWhile_eq_all_conv)
  show ?thesis
    using ne sign nohex
    by (simp add: parseInt_def Let_def dw tw digits_value_show_nat del: take_Suc_Cons)
qed

lemma show_nat_1700000000: "show_nat 1700000000 = ''1700000000''"
  by (simp add: show_nat.simps digit_char_def)

section \<open>Signature Verifier: the replay window\<close>

lemma too_old_iff:
  assumes "\<not> missing (hdr_signature req)" "\<not> missing (hdr_timestamp req)"
  shows "(validateWebhookSignature hmac secret e req = Respond (error_response 401 ''Request too old''))
     = abs_diff_exceeds (nowMs e div 1000) (parseInt (the (hdr_timestamp req))) 300"
  using assms
  by (simp add: validateWebhookSignature_def Let_def error_response_def timingSafeEqual_def
      split: option.splits bool.splits)

text \<open>
  Claim C6. When both headers are there (each a non-empty string, which is what the
  verifier's first check asks), the verifier answers 401 "Request too old" if and only if
  the timestamp parses to a number more than 300 seconds away from the current time in
  seconds. In particular, with the decimal timestamp \<open>T\<close> in the header, a request at
  \<open>T + 301\<close> or later gets that answer, and a request at \<open>T + 299\<close> does not.
\<close>

theorem replay_window:
  assumes "\<not> missing (hdr_signature req)" "\<not> missing (hdr_timestamp req)"
  shows "((validateWebhookSignature hmac secret e req = Respond (error_response 401 ''Request too old''))
            \<longleftrightarrow> (\<exists>t. parseInt (the (hdr_timestamp req)) = Some t \<and> 300 < \<bar>nowMs e div 1000 - t\<bar>))
       \<and> (\<forall>T. hdr_timestamp req = Some (show_nat T) \<and> int T + 301 \<le> nowMs e div 1000
              \<longrightarrow> validateWebhookSignature hmac secret e req = Respond (error_response 401 ''Request too old''))
       \<and> (\<forall>T. hdr_timestamp req = Some (show_nat T) \<and> nowMs e div 1000 = int T + 299
              \<longrightarrow> validateWebhookSignature hmac secret e req \<noteq> Respond (error_response 401 ''Request too old''))"
proof -
  note iff = too_old_iff [OF assms, of hmac secret e]
  have a: "(validateWebhookSignature hmac secret e req = Respond (error_response 401 ''Request too old''))
            \<longleftrightarrow> (\<exists>t. parseInt (the (hdr_timestamp req)) = Some t \<and> 300 < \<bar>nowMs e div 1000 - t\<bar>)"
    unfolding iff by (simp add: abs_diff_exceeds_def split: option.splits)
  have b: "validateWebhookSignature hmac secret e req = Respond (error_response 401 ''Request too old'')"
    if "hdr_timestamp req = Some (show_nat T)" "int T + 301 \<le> nowMs e div 1000" for T
    unfolding iff using that by (simp add: parseInt_show_nat abs_diff_exceeds_def)
  have c: "validateWebhookSignature hmac secret e req \<noteq> Respond (error_response 401 ''Request too old'')"
    if "hdr_timestamp req = Some (show_nat T)" "nowMs e div 1000 = int T + 299" for T
    unfolding iff using that by (simp add: parseInt_show_nat abs_diff_exceeds_def)
  from a b c show ?thesis by blast
qed

theorem replay_window_witness:
  "validateWebhookSignature example_mac example_secret env_301 replayed_request
     = Respond (error_response 401 ''Request too old'')
   \<and> validateWebhookSignature example_mac example_secret env_299 replayed_request
     \<noteq> Respond (error_response 401 ''Request too old'')"
proof -
  have sig: "\<not> missing (hdr_signature replayed_request)"
    and ts: "\<not> missing (hdr_timestamp replayed_request)"
    by (simp_all add: missing_def replayed_request_def)
  have hdr: "hdr_timestamp replayed_request = Some (show_nat 1700000000)"
    by (simp add: replayed_request_def show_nat_1700000000)
  have late: "int 1700000000 + 301 \<le> nowMs env_301 div 1000"
    by (simp add: env_301_def)
  have early: "nowMs env_299 div 1000 = int 1700000000 + 299"
    by (simp add: env_299_def)
  from replay_window [OF sig ts, of example_mac example_secret env_301] hdr late
  have 1: "validateWebhookSignature example_mac example_secret env_301 replayed_request
     = Respond (error_response 401 ''Request too old'')"
    by blast
  from replay_window [OF sig ts, of example_mac example_secret env_299] hdr early
  have 2: "validateWebhookSignature example_mac example_secret env_299 replayed_request
     \<noteq> Respond (error_response 401 ''Request too old'')"
    by blast
  from 1 2 show ?thesis by simp
qed

section \<open>Upsert Store: redelivery of a message\<close>

lemma map_of_upsert:
  "map_of (upsert k new upd t) k' =
     (if k' = k then Some (case map_of t k of None \<Rightarrow> new | Some r \<Rightarrow> upd r) else map_of t k')"
  by (induction t) auto

lemma insertMessage_ok:
  assumes "fst (insertMessage md d) = Inr ()"
  shows "messages (snd (insertMessage md d)) =
           upsert (m_id md) md
             (\<lambda>row. row\<lparr>m_role := m_role md, m_content := m_content md, m_parts := m_parts md,
                        m_create_time := m_create_time md, m_parent := m_parent md,
                        m_children := m_children md, m_author_name := m_author_name md\<rparr>)
             (messages d)"
  using assms by (simp add: insertMessage_def query_def split: if_splits)

lemma insertConversation_ok:
  assumes "fst (insertConversation cd d) = Inr ()"
  shows "conversations (snd (insertConversation cd d)) =
           upsert (c_conversation_id cd) cd
             (\<lambda>row. row\<lparr>c_title := c_title cd, c_model := c_model cd,
                        c_update_time := c_update_time cd, c_project_id := c_project_id cd,
                        c_openai_thread_id := c_openai_thread_id cd\<rparr>)
             (conversations d)"
  using assms by (simp add: insertConversation_def query_def split: if_splits)

text \<open>
  The sibling statement for conversations keeps the creation time: after a second
  delivery of a conversation under the same id, \<^verbatim>\<open>create_time\<close> is as first stored.
\<close>

lemma insertConversation_keeps_create_time:
  assumes "fst (insertConversation first d) = Inr ()"
    and "fst (insertConversation second (snd (insertConversation first d))) = Inr ()"
    and "c_conversation_id second = c_conversation_id first"
  shows "\<exists>row. map_of (conversations (snd (insertConversation second (snd (insertConversation first d)))))
                  (c_conversation_id first) = Some row
           \<and> c_create_time row =
               (case map_of (conversations d) (c_conversation_id first) of
                  None \<Rightarrow> c_create_time first
                | Some old \<Rightarrow> c_create_time old)"
  using assms
  by (simp add: insertConversation_ok map_of_upsert split: option.splits)

text \<open>
  Claim C3 says that the second delivery of a message under the same id leaves
  \<^verbatim>\<open>create_time\<close> as first stored. \<^verbatim>\<open>DatabaseService.insertMessage\<close> does not: its
  statement lists \<^verbatim>\<open>create_time = VALUES(create_time)\<close> among the columns to update,
  so after the second delivery the row has the second delivery's \<^verbatim>\<open>create_time\<close>,
  together with its role, content, parts, parent, children and author name. The one
  column the update leaves alone is \<^verbatim>\<open>conversation_id\<close>, which stays as first stored.
\<close>

theorem upsertMessage_redelivery:
  assumes "fst (insertMessage first d) = Inr ()"
    and "fst (insertMessage second (snd (insertMessage first d))) = Inr ()"
    and "m_id second = m_id first"
  shows "\<exists>row. map_of (messages (snd (insertMessage second (snd (insertMessage first d))))) (m_id first)
                 = Some row
           \<and> m_create_time row = m_create_time second
           \<and> m_role row = m_role second
           \<and> m_content row = m_content second
           \<and> m_parts row = m_parts second
           \<and> m_parent row = m_parent second
           \<and> m_children row = m_children second
           \<and> m_author_name row = m_author_name second
           \<and> m_conversation_id row =
               (case map_of (messages d) (m_id first) of
                  None \<Rightarrow> m_conversation_id first
                | Some old \<Rightarrow> m_conversation_id old)"
  using assms
  by (simp add: insertMessage_ok map_of_upsert split: option.splits)

text \<open>
  Two deliveries of \<open>m1\<close> with different times on an empty store: the stored
  \<^verbatim>\<open>create_time\<close> is the second delivery's, not the first's.
\<close>

lemma redelivery_create_time_example:
  "m_create_time
     (the (map_of (messages (snd (insertMessage second_delivery (snd (insertMessage first_delivery empty_db)))))
            (PVal (JStr ''m1''))))
     = PDate (Some 1700000500000)
   \<and> m_create_time first_delivery = PDate (Some 1700000000000)
   \<and> m_create_time
        (the (map_of (messages (snd (insertMessage second_delivery (snd (insertMessage first_delivery empty_db)))))
               (PVal (JStr ''m1''))))
      \<noteq> m_create_time first_delivery"
  by (simp add: insertMessage_def query_def first_delivery_def second_delivery_def empty_db_def)

theorem upsertMessage_redelivery_witness:
  "\<exists>row. map_of (messages (snd (insertMessage second_delivery (snd (insertMessage first_delivery empty_db)))))
            (PVal (JStr ''m1'')) = Some row
         \<and> m_create_time row = PDate (Some 1700000500000)
         \<and> m_role row = PVal (JStr ''assistant'')
         \<and> m_content row = PVal (JStr ''second'')
         \<and> m_conversation_id row = PVal (JStr ''c1'')"
proof -
  have 1: "fst (insertMessage first_delivery empty_db) = Inr ()"
    by (simp add: insertMessage_def query_def first_delivery_def)
  have 2: "fst (insertMessage second_delivery (snd (insertMessage first_delivery empty_db))) = Inr ()"
    by (simp add: insertMessage_def query_def second_delivery_def)
  have 3: "m_id second_delivery = m_id first_delivery"
    by (simp add: first_delivery_def second_delivery_def)
  have 4: "map_of (messages empty_db) (PVal (JStr ''m1'')) = None"
    by (simp add: empty_db_def)
  have 5: "m_id first_delivery = PVal (JStr ''m1'')"
    "m_create_time second_delivery = PDate (Some 1700000500000)"
    "m_role second_delivery = PVal (JStr ''assistant'')"
    "m_content second_delivery = PVal (JStr ''second'')"
    "m_conversation_id first_delivery = PVal (JStr ''c1'')"
    by (simp_all add: first_delivery_def second_delivery_def)
  from upsertMessage_redelivery [OF 1 2 3] show ?thesis
    unfolding 5 4 by auto
qed

section \<open>\<^verbatim>\<open>ChatBETODatabaseService.insertMessage\<close>: validation before the statement\<close>

lemma trim_nonempty_imp: "trim s \<noteq> [] \<Longrightarrow> s \<noteq> []"
  by (auto simp: trim_def)

text \<open>
  Claim C10. If \<open>conversationId\<close> is not a non-empty string, or \<open>role\<close> is not one of
  user, assistant, system, tool, or \<open>content\<close> is not a string or trims to the empty
  string, the call throws and the state is the one it started from: no row is changed
  and the count of executed statements is the same.
\<close>

theorem ChatBETO_insertMessage_rejects:
  assumes "\<not> (\<exists>s. conversationId = Some (JStr s) \<and> s \<noteq> [])
           \<or> role \<notin> set allowed_roles
           \<or> \<not> (\<exists>s. content = Some (JStr s) \<and> trim s \<noteq> [])"
  shows "\<exists>err. ChatBETO_insertMessage e conversationId role content options st = (Inl err, st)"
proof -
  have c: "\<not> truthy conversationId \<or> \<not> is_string conversationId"
    if "\<not> (\<exists>s. conversationId = Some (JStr s) \<and> s \<noteq> [])"
    using that by (cases conversationId rule: truthy.cases) (auto simp: is_string_def)
  have k: "\<not> truthy content \<or> \<not> is_string content \<or> length (trim (string_of content)) = 0"
    if "\<not> (\<exists>s. content = Some (JStr s) \<and> trim s \<noteq> [])"
    using that by (cases content rule: truthy.cases) (auto simp: is_string_def string_of_def)
  from assms c k show ?thesis
    by (auto simp: ChatBETO_insertMessage_def Let_def)
qed

theorem ChatBETO_insertMessage_rejects_witness:
  "\<exists>err. ChatBETO_insertMessage example_chat_env (Some (JStr ''c1'')) (Some (JStr ''user''))
            (Some (JStr ''   '')) no_options empty_chat_db = (Inl err, empty_chat_db)"
proof -
  have "\<not> (\<exists>s. Some (JStr ''   '') = Some (JStr s) \<and> trim s \<noteq> [])"
    by (simp add: trim_def is_ws_def)
  then show ?thesis
    using ChatBETO_insertMessage_rejects [of "Some (JStr ''c1'')" "Some (JStr ''user'')" "Some (JStr ''   '')"
        example_chat_env no_options empty_chat_db]
    by blast
qed

section \<open>Requests that pass the verifier\<close>

lemma parseInt_Nil: "parseInt [] = None"
  by (simp add: parseInt_def)

lemma valid_signature_passes:
  assumes sig: "hdr_signature req =
                  Some (''sha256='' @ digest_hex (hmac secret (ts @ ''.'' @ JSON_stringify (req_body req))))"
    and ts: "hdr_timestamp req = Some ts"
    and t: "parseInt ts = Some t"
    and fresh: "\<bar>nowMs e div 1000 - t\<bar> \<le> 300"
  shows "validateWebhookSignature hmac secret e req = Next"
proof -
  have "ts \<noteq> []" using t parseInt_Nil by auto
  then have m: "\<not> missing (hdr_signature req)" "\<not> missing (hdr_timestamp req)"
    using sig ts by (simp_all add: missing_def)
  have old: "\<not> abs_diff_exceeds (nowMs e div 1000) (parseInt ts) 300"
    using t fresh by (simp add: abs_diff_exceeds_def)
  have rep: "replace_first ''sha256='' [] (the (hdr_signature req))
               = digest_hex (hmac secret (ts @ ''.'' @ JSON_stringify (req_body req)))"
    unfolding sig option.sel using replace_first_prefix [of "''sha256=''" "[]"] by simp
  show ?thesis
    unfolding validateWebhookSignature_def Let_def
    using m old by (simp add: ts rep Buffer_from_hex_digest_hex timingSafeEqual_def)
qed

section \<open>Event Router: validation failures and unknown events\<close>

lemma invalid_payload_response:
  assumes "validateWebhookPayload (req_body req) = Invalid errs"
  shows "handleChatGPTWebhook self e req d =
           (\<lparr>res_status = 400,
             res_body = JObj [(''error'', JStr ''Invalid payload''), (''details'', details_json errs)]\<rparr>, d)"
  using assms by (simp add: handleChatGPTWebhook_def)

lemma missing_conversation_id:
  assumes "payload = JObj kvs" "map_of kvs ''message'' = None"
    "map_of kvs ''conversation'' = Some (JObj ckvs)" "map_of ckvs ''id'' = None"
  shows "validateWebhookPayload payload =
           Invalid [\<lparr>field = ''conversation.id'', message = [dquote] @ ''conversation.id'' @ [dquote] @ '' is required''\<rparr>]"
  using assms
  by (simp add: validateWebhookPayload_def webhookPayloadSchema_def Joi_object_def key_def
      key_when_exist_def optional_def messageSchema_def conversationSchema_def required_def
      fail_def path_label_def)

text \<open>
  Claim C7. When the payload fails the schema, the handler answers 400 with the body
  \<^verbatim>\<open>{error: "Invalid payload", details: [{field, message}]}\<close> and the store it
  returns is the store it was given: no statement was executed (the same holds for the
  whole route once the verifier has passed the request). In particular an envelope with
  no message whose conversation object has no \<^verbatim>\<open>id\<close> fails with the one entry whose
  field is \<^verbatim>\<open>conversation.id\<close>.
\<close>

theorem validation_short_circuit:
  "(\<forall>errs. validateWebhookPayload (req_body req) = Invalid errs \<longrightarrow>
       handleChatGPTWebhook self e req d =
         (\<lparr>res_status = 400,
           res_body = JObj [(''error'', JStr ''Invalid payload''), (''details'', details_json errs)]\<rparr>, d)
       \<and> (validateWebhookSignature hmac secret e req = Next \<longrightarrow>
            post_webhook_chatgpt hmac secret e req d =
              (\<lparr>res_status = 400,
                res_body = JObj [(''error'', JStr ''Invalid payload''), (''details'', details_json errs)]\<rparr>, d)))
   \<and> (\<forall>kvs ckvs.
         req_body req = JObj kvs \<and> map_of kvs ''message'' = None
         \<and> map_of kvs ''conversation'' = Some (JObj ckvs) \<and> map_of ckvs ''id'' = None \<longrightarrow>
         validateWebhookPayload (req_body req) =
           Invalid [\<lparr>field = ''conversation.id'', message = [dquote] @ ''conversation.id'' @ [dquote] @ '' is required''\<rparr>])"
  using invalid_payload_response [of req _ This_undefined e d]
  by (auto simp: invalid_payload_response missing_conversation_id post_webhook_chatgpt_def)

lemma ignored_event:
  assumes "validateWebhookPayload (req_body req) = Valid"
    and "event_type_of req \<notin> {''conversation.created'', ''conversation.updated'',
                                 ''message.created'', ''message.updated''}"
  shows "handleChatGPTWebhook self e req d =
           (\<lparr>res_status = 200,
             res_body = JObj [(''status'', JStr ''success''),
                              (''eventType'', JStr (event_type_of req)),
                              (''result'', JObj [(''status'', JStr ''ignored''),
                                                 (''eventType'', JStr (event_type_of req))]),
                              (''timestamp'', JStr (nowIso e))]\<rparr>, d)"
  using assms by (simp add: handleChatGPTWebhook_def Let_def io_return_def)

text \<open>
  Claim C8. A request that passes the verifier and the schema, with an event type other
  than the four the router knows, is answered 200 with \<^verbatim>\<open>result.status\<close> "ignored",
  and the store is unchanged.
\<close>

theorem unknown_event_tolerated:
  assumes "validateWebhookSignature hmac secret e req = Next"
    and "validateWebhookPayload (req_body req) = Valid"
    and "event_type_of req \<notin> {''conversation.created'', ''conversation.updated'',
                                 ''message.created'', ''message.updated''}"
  shows "post_webhook_chatgpt hmac secret e req d =
           (\<lparr>res_status = 200,
             res_body = JObj [(''status'', JStr ''success''),
                              (''eventType'', JStr (event_type_of req)),
                              (''result'', JObj [(''status'', JStr ''ignored''),
                                                 (''eventType'', JStr (event_type_of req))]),
                              (''timestamp'', JStr (nowIso e))]\<rparr>, d)"
  using assms by (simp add: post_webhook_chatgpt_def ignored_event)

lemma parseInt_1700000000: "parseInt ''1700000000'' = Some 1700000000"
  by (simp add: parseInt_def is_ws_def is_digit_def digit_of_def digits_value_def Let_def)

lemma signed_request_passes:
  "validateWebhookSignature example_mac example_secret example_env (signed_request ''1700000000'' ev body) = Next"
  by (rule valid_signature_passes [where ts = "''1700000000''" and t = 1700000000])
     (simp_all add: signed_request_def parseInt_1700000000 example_env_def)

lemma conversation_only_valid:
  "validateWebhookPayload (JObj [(''conversation'', conversation_c1)]) = Valid"
  by (simp add: validateWebhookPayload_def webhookPayloadSchema_def Joi_object_def key_def
      key_when_exist_def optional_def messageSchema_def conversationSchema_def required_def
      projectSchema_def Joi_string_def Joi_number_def allow_def with_default_def conversation_c1_def)

theorem unknown_event_tolerated_witness:
  "post_webhook_chatgpt example_mac example_secret example_env
     (signed_request ''1700000000'' ''something.else'' (JObj [(''conversation'', conversation_c1)])) empty_db
   = (\<lparr>res_status = 200,
       res_body = JObj [(''status'', JStr ''success''),
                        (''eventType'', JStr ''something.else''),
                        (''result'', JObj [(''status'', JStr ''ignored''),
                                           (''eventType'', JStr ''something.else'')]),
                        (''timestamp'', JStr ''2023-11-14T22:13:25.123Z'')]\<rparr>, empty_db)"
proof -
  let ?req = "signed_request ''1700000000'' ''something.else'' (JObj [(''conversation'', conversation_c1)])"
  have v: "validateWebhookPayload (req_body ?req) = Valid"
    by (simp add: signed_request_def conversation_only_valid)
  have ev: "event_type_of ?req = ''something.else''"
    by (simp add: event_type_of_def missing_def signed_request_def)
  then have out: "event_type_of ?req \<notin> {''conversation.created'', ''conversation.updated'',
                                 ''message.created'', ''message.updated''}"
    by simp
  show ?thesis
    using unknown_event_tolerated [OF signed_request_passes v out, of empty_db]
    by (simp add: ev example_env_def)
qed

theorem validation_short_circuit_witness:
  "handleChatGPTWebhook This_undefined example_env
     (signed_request ''1700000000'' ''conversation.created'' envelope_without_id) empty_db
   = (\<lparr>res_status = 400,
       res_body = JObj [(''error'', JStr ''Invalid payload''),
                        (''details'',
                         JArr [JObj [(''field'', JStr ''conversation.id''),
                                     (''message'', JStr ([dquote] @ ''conversation.id'' @ [dquote] @ '' is required''))]])]\<rparr>,
      empty_db)
   \<and> post_webhook_chatgpt example_mac example_secret example_env
     (signed_request ''1700000000'' ''conversation.created'' envelope_without_id) empty_db
   = (\<lparr>res_status = 400,
       res_body = JObj [(''error'', JStr ''Invalid payload''),
                        (''details'',
                         JArr [JObj [(''field'', JStr ''conversation.id''),
                                     (''message'', JStr ([dquote] @ ''conversation.id'' @ [dquote] @ '' is required''))]])]\<rparr>,
      empty_db)"
proof -
  let ?req = "signed_request ''1700000000'' ''conversation.created'' envelope_without_id"
  let ?errs = "[\<lparr>field = ''conversation.id'', message = [dquote] @ ''conversation.id'' @ [dquote] @ '' is required''\<rparr>]"
  note vsc = validation_short_circuit [of ?req This_undefined example_env empty_db example_mac example_secret]
  have body: "req_body ?req = JObj [(''conversation'',
            JObj [(''title'', JStr ''T''), (''create_time'', JNum 1700000000),
                  (''update_time'', JNum 1700000000)])]"
    by (simp add: signed_request_def envelope_without_id_def)
  have inv: "validateWebhookPayload (req_body ?req) = Invalid ?errs"
    using vsc body by simp
  from vsc inv signed_request_passes [of "''conversation.created''" envelope_without_id]
  show ?thesis
    by (simp add: details_json_def)
qed

section \<open>Signature Verifier: what is signed, and signatures of another length\<close>

text \<open>The verifier never reads the raw body.\<close>

lemma verifier_ignores_rawBody:
  "validateWebhookSignature hmac secret e (req\<lparr>rawBody := r\<rparr>) = validateWebhookSignature hmac secret e req"
  by (simp add: validateWebhookSignature_def Let_def)

text \<open>
  Claim C1 says that a signature computed over the raw bytes of the body verifies even
  when \<^verbatim>\<open>JSON.stringify\<close> of the parsed body gives other bytes. The code signs
  \<^verbatim>\<open>JSON.stringify(req.body)\<close> (\<^verbatim>\<open>req.rawBody\<close>, which \<^verbatim>\<open>server.js\<close> keeps,
  is not used): for a fresh request signed over the raw bytes, whenever the digest of the
  raw bytes differs from the digest of the re-serialised body (as digests of different
  messages do) and both have the digest's length, the verifier answers 401 "Invalid
  signature".
\<close>

theorem raw_body_signature_rejected:
  assumes ts: "hdr_timestamp req = Some ts"
    and t: "parseInt ts = Some t"
    and fresh: "\<bar>nowMs e div 1000 - t\<bar> \<le> 300"
    and sig: "hdr_signature req = Some (''sha256='' @ digest_hex (hmac secret (ts @ ''.'' @ rawBody req)))"
    and len: "length (hmac secret (ts @ ''.'' @ rawBody req))
                = length (hmac secret (ts @ ''.'' @ JSON_stringify (req_body req)))"
    and diff: "hmac secret (ts @ ''.'' @ rawBody req)
                \<noteq> hmac secret (ts @ ''.'' @ JSON_stringify (req_body req))"
  shows "validateWebhookSignature hmac secret e req = Respond (error_response 401 ''Invalid signature'')"
proof -
  have "ts \<noteq> []" using t parseInt_Nil by auto
  then have m: "\<not> missing (hdr_signature req)" "\<not> missing (hdr_timestamp req)"
    using sig ts by (simp_all add: missing_def)
  have old: "\<not> abs_diff_exceeds (nowMs e div 1000) (parseInt ts) 300"
    using t fresh by (simp add: abs_diff_exceeds_def)
  have rep: "replace_first ''sha256='' [] (the (hdr_signature req))
               = digest_hex (hmac secret (ts @ ''.'' @ rawBody req))"
    unfolding sig option.sel using replace_first_prefix [of "''sha256=''" "[]"] by simp
  show ?thesis
    unfolding validateWebhookSignature_def Let_def
    using m old len diff
    by (simp add: ts rep Buffer_from_hex_digest_hex timingSafeEqual_def)
qed

lemma stringify_a1: "JSON_stringify (JObj [(''a'', JNum 1)]) = [CHR ''{'', CHR 0x22, CHR ''a'', CHR 0x22, CHR '':'', CHR ''1'', CHR ''}'']"
  by (simp add: quote_def escape_char_def dquote_def backslash_def show_int_def show_nat.simps digit_char_def)

theorem raw_body_signature_rejected_witness:
  "rawBody raw_signed_request \<noteq> JSON_stringify (req_body raw_signed_request)
   \<and> validateWebhookSignature example_mac example_secret example_env raw_signed_request
       = Respond (error_response 401 ''Invalid signature'')"
proof -
  have body: "JSON_stringify (req_body raw_signed_request)
                = [CHR ''{'', CHR 0x22, CHR ''a'', CHR 0x22, CHR '':'', CHR ''1'', CHR ''}'']"
  proof -
    have "req_body raw_signed_request = JObj [(''a'', JNum 1)]"
      by (simp add: raw_signed_request_def)
    then show ?thesis
      by (simp only: stringify_a1)
  qed
  have raw: "rawBody raw_signed_request
                = [CHR ''{'', CHR 0x22, CHR ''a'', CHR 0x22, CHR '':'', CHR '' '', CHR ''1'', CHR ''}'']"
    by (simp add: raw_signed_request_def spaced_raw_body_def)
  have 1: "hdr_timestamp raw_signed_request = Some ''1700000000''"
    by (simp add: raw_signed_request_def)
  have 3: "\<bar>nowMs example_env div 1000 - 1700000000\<bar> \<le> 300"
    by (simp add: example_env_def)
  have 4: "hdr_signature raw_signed_request =
             Some (''sha256='' @ digest_hex (example_mac example_secret
                                   (''1700000000'' @ ''.'' @ rawBody raw_signed_request)))"
    by (simp add: raw_signed_request_def)
  have 5: "length (example_mac example_secret (''1700000000'' @ ''.'' @ rawBody raw_signed_request))
           = length (example_mac example_secret
                       (''1700000000'' @ ''.'' @ JSON_stringify (req_body raw_signed_request)))"
    by (simp add: example_mac_def)
  have 6: "example_mac example_secret (''1700000000'' @ ''.'' @ rawBody raw_signed_request)
           \<noteq> example_mac example_secret
                 (''1700000000'' @ ''.'' @ JSON_stringify (req_body raw_signed_request))"
    unfolding body raw by (simp add: example_mac_def example_secret_def)
  have "rawBody raw_signed_request \<noteq> JSON_stringify (req_body raw_signed_request)"
    unfolding body raw by simp
  with raw_body_signature_rejected [where hmac = example_mac and secret = example_secret,
      OF 1 parseInt_1700000000 3 4 5 6] show ?thesis
    by simp
qed

text \<open>
  Claim C2 says that a signature of another length than the expected one is answered
  like a mismatch, with 401. In the code \<^verbatim>\<open>crypto.timingSafeEqual\<close> throws when the
  decoded signature and the expected digest differ in length, and the \<^verbatim>\<open>catch\<close>
  block answers 500 "Signature validation failed".
\<close>

theorem length_mismatch_answered_500:
  assumes sig: "hdr_signature req = Some sg" "sg \<noteq> []"
    and ts: "hdr_timestamp req = Some ts"
    and t: "parseInt ts = Some t"
    and fresh: "\<bar>nowMs e div 1000 - t\<bar> \<le> 300"
    and len: "length (Buffer_from_hex (replace_first ''sha256='' [] sg))
                \<noteq> length (hmac secret (ts @ ''.'' @ JSON_stringify (req_body req)))"
  shows "validateWebhookSignature hmac secret e req
           = Respond (error_response 500 ''Signature validation failed'')"
proof -
  have "ts \<noteq> []" using t parseInt_Nil by auto
  then have m: "\<not> missing (hdr_signature req)" "\<not> missing (hdr_timestamp req)"
    using sig ts by (simp_all add: missing_def)
  have old: "\<not> abs_diff_exceeds (nowMs e div 1000) (parseInt ts) 300"
    using t fresh by (simp add: abs_diff_exceeds_def)
  show ?thesis
    unfolding validateWebhookSignature_def Let_def
    using m old len
    by (auto simp: ts sig Buffer_from_hex_digest_hex timingSafeEqual_def)
qed

theorem length_mismatch_answered_500_witness:
  "validateWebhookSignature example_mac example_secret example_env short_signature_request
     = Respond (error_response 500 ''Signature validation failed'')"
proof -
  have 1: "hdr_signature short_signature_request = Some ''sha256=abcd''" "''sha256=abcd'' \<noteq> []"
    by (simp_all add: short_signature_request_def)
  have 2: "hdr_timestamp short_signature_request = Some ''1700000000''"
    by (simp add: short_signature_request_def signed_request_def)
  have 3: "\<bar>nowMs example_env div 1000 - 1700000000\<bar> \<le> 300"
    by (simp add: example_env_def)
  have 4: "length (Buffer_from_hex (replace_first ''sha256='' [] ''sha256=abcd''))
            \<noteq> length (example_mac example_secret
                  (''1700000000'' @ ''.'' @ JSON_stringify (req_body short_signature_request)))"
    by (simp add: example_mac_def is_digit_def digit_of_def)
  from length_mismatch_answered_500 [where hmac = example_mac and secret = example_secret,
      OF 1 2 parseInt_1700000000 3 4] show ?thesis .
qed

text \<open>
  A signature longer than the expected one by a single digit is not rejected at all:
  \<^verbatim>\<open>Buffer.from(str, 'hex')\<close> drops the odd digit, and the verifier passes the request.
\<close>

lemma Buffer_from_hex_odd: "Buffer_from_hex (digest_hex bs @ [c]) = bs"
proof (induction bs)
  case Nil
  then show ?case by (simp add: digest_hex_def)
next
  case (Cons b bs)
  have "unat b < 256"
    using unsigned_less [of b, where ?'a = nat] by simp
  then have lt: "unat b div 16 < 16"
    by simp
  have "(of_nat (16 * (unat b div 16) + unat b mod 16) :: byte) = b"
    by simp
  moreover have "digest_hex (b # bs) @ [c] =
      hex_digit (unat b div 16) # hex_digit (unat b mod 16) # (digest_hex bs @ [c])"
    by (simp add: digest_hex_def)
  ultimately show ?case
    using Cons lt by (simp add: is_digit_def digit_of_hex_digit)
qed

lemma overlong_signature_accepted:
  assumes sig: "hdr_signature req =
                  Some (''sha256='' @ digest_hex (hmac secret (ts @ ''.'' @ JSON_stringify (req_body req))) @ [c])"
    and ts: "hdr_timestamp req = Some ts"
    and t: "parseInt ts = Some t"
    and fresh: "\<bar>nowMs e div 1000 - t\<bar> \<le> 300"
  shows "validateWebhookSignature hmac secret e req = Next"
proof -
  have "ts \<noteq> []" using t parseInt_Nil by auto
  then have m: "\<not> missing (hdr_signature req)" "\<not> missing (hdr_timestamp req)"
    using sig ts by (simp_all add: missing_def)
  have old: "\<not> abs_diff_exceeds (nowMs e div 1000) (parseInt ts) 300"
    using t fresh by (simp add: abs_diff_exceeds_def)
  have rep: "replace_first ''sha256='' [] (the (hdr_signature req))
               = digest_hex (hmac secret (ts @ ''.'' @ JSON_stringify (req_body req))) @ [c]"
    unfolding sig option.sel using replace_first_prefix [of "''sha256=''" "[]"] by simp
  show ?thesis
    unfolding validateWebhookSignature_def Let_def
    using m old
    by (simp add: ts rep Buffer_from_hex_digest_hex Buffer_from_hex_odd timingSafeEqual_def)
qed

lemma long_signature_request_accepted:
  "validateWebhookSignature example_mac example_secret example_env long_signature_request = Next"
  by (rule overlong_signature_accepted [where ts = "''1700000000''" and t = 1700000000 and c = "CHR ''0''"])
     (simp_all add: long_signature_request_def signed_request_def parseInt_1700000000 example_env_def)

section \<open>What a valid payload holds\<close>

lemma first_error_None: "first_error es = None \<longleftrightarrow> (\<forall>e \<in> set es. e = None)"
  by (induction es rule: first_error.induct) auto

lemma query_run:
  "PUndefined \<notin> set ps \<Longrightarrow>
     query stmt ps run d = (Inr (fst (run d)), (snd (run d))\<lparr>statements := statements (snd (run d)) @ [stmt]\<rparr>)"
  by (simp add: query_def split: prod.splits)

lemma query_undefined: "PUndefined \<in> set ps \<Longrightarrow> query stmt ps run d = (Inl bind_undefined, d)"
  by (simp add: query_def)

lemma of_js_Some [simp]: "of_js (Some v) = PVal v"
  by (simp add: of_js_def)

lemma of_js_or_defined [simp]:
  "of_js (js_or a (Some b)) \<noteq> PUndefined" "PUndefined \<noteq> of_js (js_or a (Some b))"
  by (cases a; auto simp: js_or_def of_js_def)+

lemma new_Date_defined [simp]:
  "new_Date_seconds v \<noteq> PUndefined" "PUndefined \<noteq> new_Date_seconds v"
  by (simp_all add: new_Date_seconds_def)

lemma stringify_or_null_defined [simp]:
  "stringify_or_null v \<noteq> PUndefined" "PUndefined \<noteq> stringify_or_null v"
  by (simp_all add: stringify_or_null_def)

lemma messageSchema_facts:
  assumes "messageSchema p (Some m) = None"
  shows "\<exists>mkvs s1 s2. m = JObj mkvs
           \<and> map_of mkvs ''id'' = Some (JStr s1) \<and> s1 \<noteq> []
           \<and> map_of mkvs ''conversation_id'' = Some (JStr s2) \<and> s2 \<noteq> []
           \<and> map_of mkvs ''role'' \<in> {Some (JStr ''user''), Some (JStr ''assistant''), Some (JStr ''system'')}"
proof -
  from assms obtain mkvs where m: "m = JObj mkvs"
    by (cases m) (auto simp: messageSchema_def Joi_object_def fail_def)
  have keys: "required Joi_string (p @ [Key ''id'']) (map_of mkvs ''id'') = None"
    "required Joi_string (p @ [Key ''conversation_id'']) (map_of mkvs ''conversation_id'') = None"
    "required (valid [''user'', ''assistant'', ''system''] Joi_string)
       (p @ [Key ''role'']) (map_of mkvs ''role'') = None"
    using assms unfolding m messageSchema_def Joi_object_def
    by (simp_all add: first_error_None key_def)
  from keys(1) obtain s1 where 1: "map_of mkvs ''id'' = Some (JStr s1)" "s1 \<noteq> []"
    by (auto simp: required_def Joi_string_def fail_def split: option.splits json.splits if_splits)
  from keys(2) obtain s2 where 2: "map_of mkvs ''conversation_id'' = Some (JStr s2)" "s2 \<noteq> []"
    by (auto simp: required_def Joi_string_def fail_def split: option.splits json.splits if_splits)
  from keys(3) have 3: "map_of mkvs ''role'' \<in> {Some (JStr ''user''), Some (JStr ''assistant''), Some (JStr ''system'')}"
    by (auto simp: required_def valid_def fail_def split: option.splits if_splits)
  from m 1 2 3 show ?thesis by blast
qed

lemma conversationSchema_facts:
  assumes "conversationSchema p (Some c) = None"
  shows "\<exists>ckvs s. c = JObj ckvs \<and> map_of ckvs ''id'' = Some (JStr s) \<and> s \<noteq> []"
proof -
  from assms obtain ckvs where c: "c = JObj ckvs"
    by (cases c) (auto simp: conversationSchema_def Joi_object_def fail_def)
  have "required Joi_string (p @ [Key ''id'']) (map_of ckvs ''id'') = None"
    using assms unfolding c conversationSchema_def Joi_object_def
    by (simp add: first_error_None key_def)
  then obtain s where "map_of ckvs ''id'' = Some (JStr s)" "s \<noteq> []"
    by (auto simp: required_def Joi_string_def fail_def split: option.splits json.splits if_splits)
  with c show ?thesis by blast
qed

lemma valid_payload_object:
  assumes "validateWebhookPayload payload = Valid"
  shows "\<exists>kvs. payload = JObj kvs"
  using assms
  by (cases payload)
     (auto simp: validateWebhookPayload_def webhookPayloadSchema_def Joi_object_def fail_def
       split: option.splits)

lemma valid_payload_message:
  assumes "validateWebhookPayload payload = Valid" "get_prop payload ''message'' = Some m"
  shows "messageSchema [Key ''message''] (Some m) = None"
proof -
  from assms(1) obtain kvs where p: "payload = JObj kvs"
    using valid_payload_object by blast
  have "webhookPayloadSchema [] (Some (JObj kvs)) = None"
    using assms(1) unfolding p by (simp add: validateWebhookPayload_def split: option.splits)
  then have "optional messageSchema ([] @ [Key ''message'']) (map_of kvs ''message'') = None"
    unfolding webhookPayloadSchema_def Joi_object_def
    by (simp add: first_error_None key_def)
  with assms(2) show ?thesis
    by (simp add: p optional_def)
qed

lemma valid_payload_conversation:
  assumes "validateWebhookPayload payload = Valid" "get_prop payload ''conversation'' = Some c"
  shows "conversationSchema [Key ''conversation''] (Some c) = None"
proof -
  from assms(1) obtain kvs where p: "payload = JObj kvs"
    using valid_payload_object by blast
  have "webhookPayloadSchema [] (Some (JObj kvs)) = None"
    using assms(1) unfolding p by (simp add: validateWebhookPayload_def split: option.splits)
  then have "(if map_of kvs ''message'' \<noteq> None then optional conversationSchema
              else required conversationSchema) ([] @ [Key ''conversation'']) (map_of kvs ''conversation'') = None"
    unfolding webhookPayloadSchema_def Joi_object_def
    by (simp add: first_error_None key_def key_when_exist_def)
  with assms(2) show ?thesis
    by (simp add: p optional_def required_def split: if_splits)
qed

section \<open>Event Router: a message before its conversation\<close>

lemma getConversation_run:
  "k \<noteq> PUndefined \<Longrightarrow>
     getConversation k d = (Inr (map_of (conversations d) k), d\<lparr>statements := statements d @ [SELECT_conversation]\<rparr>)"
  by (simp add: getConversation_def query_run)

lemma insertConversation_run:
  assumes "PUndefined \<notin> set [c_conversation_id cd, c_title cd, c_model cd, c_create_time cd,
             c_update_time cd, c_project_id cd, c_openai_thread_id cd]"
  shows "\<exists>d'. insertConversation cd d = (Inr (), d')
           \<and> messages d' = messages d \<and> projects d' = projects d
           \<and> statements d' = statements d @ [INSERT_conversation]
           \<and> (\<forall>k. map_of (conversations d') k =
                 (if k = c_conversation_id cd
                  then Some (case map_of (conversations d) k of
                               None \<Rightarrow> cd
                             | Some row \<Rightarrow> row\<lparr>c_title := c_title cd, c_model := c_model cd,
                                                c_update_time := c_update_time cd,
                                                c_project_id := c_project_id cd,
                                                c_openai_thread_id := c_openai_thread_id cd\<rparr>)
                  else map_of (conversations d) k))"
  using assms unfolding insertConversation_def
  by (subst query_run) (auto simp: map_of_upsert)

lemma insertMessage_run:
  assumes "PUndefined \<notin> set [m_id md, m_conversation_id md, m_role md, m_content md, m_parts md,
             m_create_time md, m_parent md, m_children md, m_author_name md]"
  shows "\<exists>d'. insertMessage md d = (Inr (), d')
           \<and> conversations d' = conversations d \<and> projects d' = projects d
           \<and> statements d' = statements d @ [INSERT_message]
           \<and> (\<forall>k. map_of (messages d') k =
                 (if k = m_id md
                  then Some (case map_of (messages d) k of
                               None \<Rightarrow> md
                             | Some row \<Rightarrow> row\<lparr>m_role := m_role md, m_content := m_content md,
                                                m_parts := m_parts md,
                                                m_create_time := m_create_time md,
                                                m_parent := m_parent md,
                                                m_children := m_children md,
                                                m_author_name := m_author_name md\<rparr>)
                  else map_of (messages d) k))"
  using assms unfolding insertMessage_def
  by (subst query_run) (auto simp: map_of_upsert)

text \<open>The embedded conversation, handled as a \<^verbatim>\<open>conversation.created\<close> event.\<close>

lemma handleConversationCreated_embedded:
  assumes "map_of ckvs ''id'' = Some cid"
  shows "\<exists>d' crow. handleConversationCreated (JObj [(''conversation'', JObj ckvs)]) d
             = (Inr (JObj [(''status'', JStr ''conversation_created''), (''conversationId'', cid)]), d')
           \<and> messages d' = messages d
           \<and> (map_of (conversations d) (PVal cid) = None \<longrightarrow>
                map_of (conversations d') (PVal cid) = Some crow)
           \<and> c_conversation_id crow = PVal cid
           \<and> c_title crow = of_js (js_or (map_of ckvs ''title'') (Some (JStr ''Untitled'')))"
proof -
  let ?cd = "\<lparr>c_conversation_id = PVal cid,
              c_title = of_js (js_or (map_of ckvs ''title'') (Some (JStr ''Untitled''))),
              c_model = of_js (js_or (map_of ckvs ''model'') (Some (JStr ''gpt-4''))),
              c_create_time = new_Date_seconds (map_of ckvs ''create_time''),
              c_update_time = new_Date_seconds (map_of ckvs ''update_time''),
              c_project_id = PVal JNull,
              c_openai_thread_id = of_js (js_or (map_of ckvs ''openai_thread_id'') (Some JNull))\<rparr>"
  have "PUndefined \<notin> set [c_conversation_id ?cd, c_title ?cd, c_model ?cd, c_create_time ?cd,
             c_update_time ?cd, c_project_id ?cd, c_openai_thread_id ?cd]"
    by simp
  from insertConversation_run [OF this, of d] obtain d' where
    run: "insertConversation ?cd d = (Inr (), d')" and
    keep: "messages d' = messages d" and
    look: "\<forall>k. map_of (conversations d') k =
                 (if k = c_conversation_id ?cd
                  then Some (case map_of (conversations d) k of
                               None \<Rightarrow> ?cd
                             | Some row \<Rightarrow> row\<lparr>c_title := c_title ?cd, c_model := c_model ?cd,
                                                c_update_time := c_update_time ?cd,
                                                c_project_id := c_project_id ?cd,
                                                c_openai_thread_id := c_openai_thread_id ?cd\<rparr>)
                  else map_of (conversations d) k)"
    by blast
  have h: "handleConversationCreated (JObj [(''conversation'', JObj ckvs)]) d
             = (Inr (JObj [(''status'', JStr ''conversation_created''), (''conversationId'', cid)]), d')"
    using assms run
    by (simp add: handleConversationCreated_def Let_def io_bind_def io_return_def nullish_def
        member_def object_of_def List.map_filter_def)
  have "map_of (conversations d) (PVal cid) = None \<longrightarrow> map_of (conversations d') (PVal cid) = Some ?cd"
    using look by simp
  with h keep show ?thesis
    by (intro exI [of _ d'] exI [of _ ?cd]) simp
qed

text \<open>
  \<^verbatim>\<open>handleMessageCreated\<close>, called on the controller, for a message and an embedded
  conversation that the store does not have yet.
\<close>

lemma handleMessageCreated_new:
  assumes props: "map_of kvs ''message'' = Some (JObj mkvs)"
      "map_of kvs ''conversation'' = Some (JObj ckvs)"
    and c_id: "map_of ckvs ''id'' = Some cid"
    and m_id: "map_of mkvs ''id'' = Some mid"
    and m_conv: "map_of mkvs ''conversation_id'' = Some (JStr s2)" "s2 \<noteq> []"
    and new_conv: "map_of (conversations d) (PVal cid) = None"
    and new_msg: "map_of (messages d) (PVal mid) = None"
  shows "\<exists>d' crow mrow.
           handleMessageCreated This_controller (JObj kvs) d
             = (Inr (JObj [(''status'', JStr ''message_created''), (''messageId'', mid)]), d')
         \<and> map_of (conversations d') (PVal cid) = Some crow
         \<and> c_conversation_id crow = PVal cid
         \<and> c_title crow = of_js (js_or (map_of ckvs ''title'') (Some (JStr ''Untitled'')))
         \<and> map_of (messages d') (PVal mid) = Some mrow
         \<and> m_id mrow = PVal mid
         \<and> m_conversation_id mrow = PVal (JStr s2)
         \<and> m_role mrow = of_js (js_or (map_of mkvs ''role'') (Some (JStr ''user'')))
         \<and> m_content mrow = stringify_or_null (map_of mkvs ''content'')"
proof -
  let ?d1 = "d\<lparr>statements := statements d @ [SELECT_conversation]\<rparr>"
  have g: "getConversation (PVal cid) d = (Inr None, ?d1)"
    using new_conv by (simp add: getConversation_run)
  from handleConversationCreated_embedded [OF c_id, of ?d1] obtain d2 crow where
    hc: "handleConversationCreated (JObj [(''conversation'', JObj ckvs)]) ?d1
           = (Inr (JObj [(''status'', JStr ''conversation_created''), (''conversationId'', cid)]), d2)" and
    keep2: "messages d2 = messages ?d1" and
    crow: "map_of (conversations d2) (PVal cid) = Some crow" "c_conversation_id crow = PVal cid"
      "c_title crow = of_js (js_or (map_of ckvs ''title'') (Some (JStr ''Untitled'')))"
    using new_conv by auto
  let ?md = "\<lparr>m_id = PVal mid,
              m_conversation_id = PVal (JStr s2),
              m_role = of_js (js_or (map_of mkvs ''role'') (Some (JStr ''user''))),
              m_content = stringify_or_null (map_of mkvs ''content''),
              m_parts = stringify_or_null (map_of mkvs ''parts''),
              m_create_time = new_Date_seconds (map_of mkvs ''create_time''),
              m_parent = of_js (js_or (map_of mkvs ''parent'') (Some JNull)),
              m_children = stringify_or_null (map_of mkvs ''children''),
              m_author_name = of_js (js_or (opt_chain (map_of mkvs ''author'') ''name'') (Some JNull))\<rparr>"
  have "PUndefined \<notin> set [m_id ?md, m_conversation_id ?md, m_role ?md, m_content ?md, m_parts ?md,
             m_create_time ?md, m_parent ?md, m_children ?md, m_author_name ?md]"
    by simp
  from insertMessage_run [OF this, of d2] obtain d3 where
    im: "insertMessage ?md d2 = (Inr (), d3)" and
    keep3: "conversations d3 = conversations d2" and
    look3: "\<forall>k. map_of (messages d3) k =
                 (if k = m_id ?md
                  then Some (case map_of (messages d2) k of
                               None \<Rightarrow> ?md
                             | Some row \<Rightarrow> row\<lparr>m_role := m_role ?md, m_content := m_content ?md,
                                                m_parts := m_parts ?md,
                                                m_create_time := m_create_time ?md,
                                                m_parent := m_parent ?md,
                                                m_children := m_children ?md,
                                                m_author_name := m_author_name ?md\<rparr>)
                  else map_of (messages d2) k)"
    by blast
  have mrow: "map_of (messages d3) (PVal mid) = Some ?md"
    using look3 keep2 new_msg by simp
  have h: "handleMessageCreated This_controller (JObj kvs) d
             = (Inr (JObj [(''status'', JStr ''message_created''), (''messageId'', mid)]), d3)"
    using g hc im m_id m_conv c_id props
    by (simp add: handleMessageCreated_def Let_def io_bind_def io_return_def nullish_def
        member_def object_of_def List.map_filter_def this_method_def js_or_def)
  show ?thesis
    using h crow mrow keep3
    by (intro exI [of _ d3] exI [of _ crow] exI [of _ ?md]) simp
qed

text \<open>The route handler, called on the controller, for a \<^verbatim>\<open>message.created\<close> event.\<close>

lemma handleChatGPTWebhook_message_created:
  assumes "hdr_event_type req = Some ''message.created''"
    and "validateWebhookPayload (req_body req) = Valid"
    and "handleMessageCreated This_controller (req_body req) d = (Inr result, d')"
  shows "handleChatGPTWebhook This_controller e req d =
           (\<lparr>res_status = 200,
             res_body = JObj [(''status'', JStr ''success''),
                              (''eventType'', JStr ''message.created''),
                              (''result'', result),
                              (''timestamp'', JStr (nowIso e))]\<rparr>, d')"
  using assms
  by (simp add: handleChatGPTWebhook_def Let_def event_type_of_def missing_def this_method_def)

text \<open>
  The route as it is wired: the handler runs with \<^verbatim>\<open>this\<close> undefined, so for each
  of the four event types the read of \<^verbatim>\<open>this.handleX\<close> throws, and the answer is 500
  with the store untouched.
\<close>

lemma unbound_handler_500:
  assumes "validateWebhookPayload (req_body req) = Valid"
    and "event_type_of req \<in> {''conversation.created'', ''conversation.updated'',
                               ''message.created'', ''message.updated''}"
  shows "\<exists>msg. handleChatGPTWebhook This_undefined e req d =
           (\<lparr>res_status = 500,
             res_body = JObj [(''error'', JStr ''Internal server error''),
                              (''message'', JStr msg),
                              (''timestamp'', JStr (nowIso e))]\<rparr>, d)"
  using assms
  by (auto simp: handleChatGPTWebhook_def Let_def this_method_def io_throw_def)

text \<open>
  Whatever the request, the store after the route as wired is the store before it: the
  verifier and the validation write nothing, the four known event types throw before
  their handler is entered, and any other event type is answered without a statement.
\<close>

lemma route_store_unchanged: "snd (post_webhook_chatgpt hmac secret e req d) = d"
proof (cases "validateWebhookSignature hmac secret e req")
  case Next
  show ?thesis
  proof (cases "validateWebhookPayload (req_body req)")
    case (Invalid errs)
    with Next show ?thesis
      by (simp add: post_webhook_chatgpt_def handleChatGPTWebhook_def)
  next
    case Valid
    with Next show ?thesis
      by (simp add: post_webhook_chatgpt_def handleChatGPTWebhook_def Let_def this_method_def
          io_throw_def io_return_def)
  qed
next
  case (Respond res)
  then show ?thesis
    by (simp add: post_webhook_chatgpt_def)
qed

text \<open>
  The handler by itself, called as a method of the controller (which the route does
  not do), with a valid \<^verbatim>\<open>message.created\<close> event whose embedded conversation and
  whose message are not in the store yet: it answers 200 and leaves a conversation row
  under the embedded conversation's id and a message row under the message's id, linked
  by the message's \<^verbatim>\<open>conversation_id\<close>.
\<close>

lemma handler_on_controller_message_created:
  assumes ev: "hdr_event_type req = Some ''message.created''"
    and ok: "validateWebhookPayload (req_body req) = Valid"
    and hm: "get_prop (req_body req) ''message'' = Some msg"
    and hc: "get_prop (req_body req) ''conversation'' = Some conv"
    and cid: "get_prop conv ''id'' = Some cid"
    and mid: "get_prop msg ''id'' = Some mid"
    and new_conv: "map_of (conversations d) (PVal cid) = None"
    and new_msg: "map_of (messages d) (PVal mid) = None"
  shows "\<exists>d' crow mrow.
           handleChatGPTWebhook This_controller e req d =
             (\<lparr>res_status = 200,
               res_body = JObj [(''status'', JStr ''success''),
                                (''eventType'', JStr ''message.created''),
                                (''result'', JObj [(''status'', JStr ''message_created''),
                                                   (''messageId'', mid)]),
                                (''timestamp'', JStr (nowIso e))]\<rparr>, d')
         \<and> map_of (conversations d') (PVal cid) = Some crow
         \<and> c_conversation_id crow = PVal cid
         \<and> map_of (messages d') (PVal mid) = Some mrow
         \<and> m_id mrow = PVal mid
         \<and> m_conversation_id mrow = of_js (get_prop msg ''conversation_id'')"
proof -
  from messageSchema_facts [OF valid_payload_message [OF ok hm]] obtain mkvs s1 s2 where
    m: "msg = JObj mkvs" and
    m_conv: "map_of mkvs ''conversation_id'' = Some (JStr s2)" "s2 \<noteq> []"
    by blast
  from conversationSchema_facts [OF valid_payload_conversation [OF ok hc]] obtain ckvs where
    c: "conv = JObj ckvs"
    by blast
  from ok obtain kvs where body: "req_body req = JObj kvs"
    using valid_payload_object by blast
  have props: "map_of kvs ''message'' = Some (JObj mkvs)" "map_of kvs ''conversation'' = Some (JObj ckvs)"
    using hm hc body m c by simp_all
  have ids: "map_of ckvs ''id'' = Some cid" "map_of mkvs ''id'' = Some mid"
    using cid mid m c by simp_all
  from handleMessageCreated_new [OF props ids m_conv new_conv new_msg] obtain d' crow mrow where
    run: "handleMessageCreated This_controller (JObj kvs) d
             = (Inr (JObj [(''status'', JStr ''message_created''), (''messageId'', mid)]), d')" and
    rows: "map_of (conversations d') (PVal cid) = Some crow" "c_conversation_id crow = PVal cid"
      "map_of (messages d') (PVal mid) = Some mrow" "m_id mrow = PVal mid"
      "m_conversation_id mrow = PVal (JStr s2)"
    by blast
  have run': "handleMessageCreated This_controller (req_body req) d
             = (Inr (JObj [(''status'', JStr ''message_created''), (''messageId'', mid)]), d')"
    using run body by simp
  from handleChatGPTWebhook_message_created [OF ev ok run', of e] rows m m_conv
  show ?thesis
    by (intro exI [of _ d'] exI [of _ crow] exI [of _ mrow]) simp
qed

text \<open>
  Claim C4 says that a \<^verbatim>\<open>message.created\<close> event whose embedded conversation is
  not in the store yet leaves a conversation row and a message row linked to it. On the
  route as it is wired the claim fails: for every such event that passes the verifier
  and the validation, with the embedded conversation's id and the message's id absent
  from the store, the answer is 500 with the TypeError of reading
  \<^verbatim>\<open>handleMessageCreated\<close> on \<^verbatim>\<open>undefined\<close>, the store is unchanged, and neither
  the conversation row nor the message row exists afterwards.
\<close>

theorem message_created_answered_500:
  assumes pass: "validateWebhookSignature hmac secret e req = Next"
    and ev: "hdr_event_type req = Some ''message.created''"
    and ok: "validateWebhookPayload (req_body req) = Valid"
    and hm: "get_prop (req_body req) ''message'' = Some msg"
    and hc: "get_prop (req_body req) ''conversation'' = Some conv"
    and cid: "get_prop conv ''id'' = Some cid"
    and mid: "get_prop msg ''id'' = Some mid"
    and new_conv: "map_of (conversations d) (PVal cid) = None"
    and new_msg: "map_of (messages d) (PVal mid) = None"
  shows "post_webhook_chatgpt hmac secret e req d =
           (\<lparr>res_status = 500,
             res_body = JObj [(''error'', JStr ''Internal server error''),
                              (''message'',
                               JStr (''Cannot read properties of undefined (reading ''
                                     @ [CHR 0x27] @ ''handleMessageCreated'' @ [CHR 0x27] @ '')'')),
                              (''timestamp'', JStr (nowIso e))]\<rparr>, d)
       \<and> map_of (conversations (snd (post_webhook_chatgpt hmac secret e req d))) (PVal cid) = None
       \<and> map_of (messages (snd (post_webhook_chatgpt hmac secret e req d))) (PVal mid) = None"
proof -
  have "post_webhook_chatgpt hmac secret e req d =
           (\<lparr>res_status = 500,
             res_body = JObj [(''error'', JStr ''Internal server error''),
                              (''message'',
                               JStr (''Cannot read properties of undefined (reading ''
                                     @ [CHR 0x27] @ ''handleMessageCreated'' @ [CHR 0x27] @ '')'')),
                              (''timestamp'', JStr (nowIso e))]\<rparr>, d)"
    using pass ev ok
    by (simp add: post_webhook_chatgpt_def handleChatGPTWebhook_def Let_def event_type_of_def
        missing_def this_method_def io_throw_def type_error_reading_def)
  with new_conv new_msg show ?thesis
    by simp
qed

subsection \<open>Concrete events\<close>

lemmas schema_defs =
  validateWebhookPayload_def webhookPayloadSchema_def messageSchema_def conversationSchema_def
  projectSchema_def Joi_object_def Joi_string_def Joi_number_def Joi_boolean_def Joi_array_def
  Joi_array_items_def alternatives_try_def alternatives_errors_def allow_def valid_def
  required_def optional_def with_default_def key_def key_when_exist_def fail_def path_label_def

lemmas handler_defs =
  handleMessageCreated_def handleConversationCreated_def
  handleMessageUpdated_def handleConversationUpdated_def this_method_def
  io_bind_def io_return_def io_throw_def
  getConversation_def getProject_def createProject_def insertConversation_def insertMessage_def
  query_def member_def nullish_def of_js_def js_or_def opt_chain_def new_Date_seconds_def
  stringify_or_null_def object_of_def List.map_filter_def type_error_reading_def Let_def

lemma envelope_m1_c1_valid: "validateWebhookPayload envelope_m1_c1 = Valid"
  by (simp add: schema_defs envelope_m1_c1_def message_m1_def conversation_c1_def)

lemma envelope_no_content_valid: "validateWebhookPayload envelope_no_content = Valid"
  by (simp add: schema_defs envelope_no_content_def)

text \<open>
  Numerals in strings: what \<^verbatim>\<open>Number\<close> reads, a conversation whose times are
  numerals in strings, which the schema accepts, and the date made of such a time.
\<close>

lemma Number_of_strings:
  "string_to_number ''1e3'' = Some 1000"
  "string_to_number ''0x10'' = Some 16"
  "string_to_number '' 1700000000 '' = Some 1700000000"
  "string_to_number ''1.5'' = None"
  "string_to_number [] = Some 0"
  by (simp_all add: string_to_number_def radix_literal_def decimal_literal_def numeral_int_def
      trim_def is_ws_def is_digit_def digit_of_def digits_value_def Let_def)

lemma numeric_strings_valid:
  "validateWebhookPayload
     (JObj [(''conversation'',
             JObj [(''id'', JStr ''c1''), (''create_time'', JStr ''1700000000''),
                   (''update_time'', JStr '' 17e8 '')])]) = Valid"
  by (simp add: schema_defs decimal_literal_def numeral_int_def trim_def is_ws_def is_digit_def
      digit_of_def digits_value_def Let_def)

lemma numeric_string_date:
  "new_Date_seconds (Some (JStr ''1700000000'')) = PDate (Some 1700000000000)"
  by (simp add: new_Date_seconds_def string_to_number_def radix_literal_def decimal_literal_def
      numeral_int_def trim_def is_ws_def is_digit_def digit_of_def digits_value_def Let_def)

lemma quote_hi: "quote ''hi'' = [CHR 0x22, CHR ''h'', CHR ''i'', CHR 0x22]"
  by (simp add: quote_def escape_char_def dquote_def backslash_def)

theorem message_created_answered_500_witness:
  "post_webhook_chatgpt example_mac example_secret example_env
     (signed_request ''1700000000'' ''message.created'' envelope_m1_c1) empty_db =
     (\<lparr>res_status = 500,
       res_body = JObj [(''error'', JStr ''Internal server error''),
                        (''message'',
                         JStr (''Cannot read properties of undefined (reading ''
                               @ [CHR 0x27] @ ''handleMessageCreated'' @ [CHR 0x27] @ '')'')),
                        (''timestamp'', JStr ''2023-11-14T22:13:25.123Z'')]\<rparr>, empty_db)
   \<and> map_of (conversations (snd (post_webhook_chatgpt example_mac example_secret example_env
          (signed_request ''1700000000'' ''message.created'' envelope_m1_c1) empty_db)))
        (PVal (JStr ''c1'')) = None
   \<and> map_of (messages (snd (post_webhook_chatgpt example_mac example_secret example_env
          (signed_request ''1700000000'' ''message.created'' envelope_m1_c1) empty_db)))
        (PVal (JStr ''m1'')) = None"
proof -
  let ?req = "signed_request ''1700000000'' ''message.created'' envelope_m1_c1"
  have 1: "hdr_event_type ?req = Some ''message.created''"
    by (simp add: signed_request_def)
  have 2: "validateWebhookPayload (req_body ?req) = Valid"
    by (simp add: signed_request_def envelope_m1_c1_valid)
  have 3: "get_prop (req_body ?req) ''message'' = Some message_m1"
    by (simp add: signed_request_def envelope_m1_c1_def)
  have 4: "get_prop (req_body ?req) ''conversation'' = Some conversation_c1"
    by (simp add: signed_request_def envelope_m1_c1_def)
  have 5: "get_prop conversation_c1 ''id'' = Some (JStr ''c1'')"
    by (simp add: conversation_c1_def)
  have 6: "get_prop message_m1 ''id'' = Some (JStr ''m1'')"
    by (simp add: message_m1_def)
  have 7: "map_of (conversations empty_db) (PVal (JStr ''c1'')) = None"
    "map_of (messages empty_db) (PVal (JStr ''m1'')) = None"
    by (simp_all add: empty_db_def)
  have 8: "nowIso example_env = ''2023-11-14T22:13:25.123Z''"
    by (simp add: example_env_def)
  from message_created_answered_500 [where hmac = example_mac and secret = example_secret,
      OF signed_request_passes 1 2 3 4 5 6 7]
  show ?thesis
    unfolding 8 .
qed

section \<open>The end-to-end scenario\<close>

lemma m1_c1_run:
  assumes "map_of (conversations d) (PVal (JStr ''c1'')) = None"
    and "map_of (messages d) (PVal (JStr ''m1'')) = None"
  shows "\<exists>d' crow mrow.
           handleMessageCreated This_controller envelope_m1_c1 d
             = (Inr (JObj [(''status'', JStr ''message_created''), (''messageId'', JStr ''m1'')]), d')
         \<and> map_of (conversations d') (PVal (JStr ''c1'')) = Some crow
         \<and> c_title crow = PVal (JStr ''T'')
         \<and> map_of (messages d') (PVal (JStr ''m1'')) = Some mrow
         \<and> m_conversation_id mrow = PVal (JStr ''c1'')
         \<and> m_role mrow = PVal (JStr ''user'')
         \<and> m_content mrow = PVal (JStr [CHR 0x22, CHR ''h'', CHR ''i'', CHR 0x22])"
proof -
  let ?mkvs = "[(''id'', JStr ''m1''), (''conversation_id'', JStr ''c1''), (''role'', JStr ''user''),
           (''content'', JStr ''hi''), (''create_time'', JNum 1700000000)]"
  let ?ckvs = "[(''id'', JStr ''c1''), (''title'', JStr ''T''),
           (''create_time'', JNum 1700000000), (''update_time'', JNum 1700000000)]"
  let ?kvs = "[(''message'', JObj ?mkvs), (''conversation'', JObj ?ckvs)]"
  have env: "envelope_m1_c1 = JObj ?kvs"
    by (simp add: envelope_m1_c1_def message_m1_def conversation_c1_def)
  have props: "map_of ?kvs ''message'' = Some (JObj ?mkvs)" "map_of ?kvs ''conversation'' = Some (JObj ?ckvs)"
    by simp_all
  have ids: "map_of ?ckvs ''id'' = Some (JStr ''c1'')" "map_of ?mkvs ''id'' = Some (JStr ''m1'')"
    by simp_all
  have conv: "map_of ?mkvs ''conversation_id'' = Some (JStr ''c1'')" "''c1'' \<noteq> []"
    by simp_all
  have vals: "of_js (js_or (map_of ?ckvs ''title'') (Some (JStr ''Untitled''))) = PVal (JStr ''T'')"
    "of_js (js_or (map_of ?mkvs ''role'') (Some (JStr ''user''))) = PVal (JStr ''user'')"
    "stringify_or_null (map_of ?mkvs ''content'') = PVal (JStr [CHR 0x22, CHR ''h'', CHR ''i'', CHR 0x22])"
    by (simp_all add: js_or_def stringify_or_null_def quote_hi)
  from handleMessageCreated_new [OF props ids conv assms] show ?thesis
    unfolding env vals by blast
qed

text \<open>
  The handler by itself, called as a method of the controller (which the route does
  not do), on the scenario's envelope and a store that has neither \<open>c1\<close> nor \<open>m1\<close>:
  it answers 200 with the body of the scenario and a timestamp, and leaves the
  conversation \<open>c1\<close> with title \<open>T\<close> and the message \<open>m1\<close> with role \<open>user\<close>,
  linked to \<open>c1\<close>. The content it stores is \<^verbatim>\<open>JSON.stringify("hi")\<close>, the four
  characters of \<open>hi\<close> between double quotes.
\<close>

lemma handler_on_controller_end_to_end:
  assumes body: "req_body req = envelope_m1_c1"
    and ev: "hdr_event_type req = Some ''message.created''"
    and new_conv: "map_of (conversations d) (PVal (JStr ''c1'')) = None"
    and new_msg: "map_of (messages d) (PVal (JStr ''m1'')) = None"
  shows "\<exists>d' crow mrow.
             handleChatGPTWebhook This_controller e req d =
               (\<lparr>res_status = 200,
                 res_body = JObj [(''status'', JStr ''success''),
                                  (''eventType'', JStr ''message.created''),
                                  (''result'', JObj [(''status'', JStr ''message_created''),
                                                     (''messageId'', JStr ''m1'')]),
                                  (''timestamp'', JStr (nowIso e))]\<rparr>, d')
           \<and> map_of (conversations d') (PVal (JStr ''c1'')) = Some crow
           \<and> c_title crow = PVal (JStr ''T'')
           \<and> map_of (messages d') (PVal (JStr ''m1'')) = Some mrow
           \<and> m_conversation_id mrow = PVal (JStr ''c1'')
           \<and> m_role mrow = PVal (JStr ''user'')
           \<and> m_content mrow = PVal (JStr [CHR 0x22, CHR ''h'', CHR ''i'', CHR 0x22])"
proof -
  have ok: "validateWebhookPayload (req_body req) = Valid"
    by (simp add: body envelope_m1_c1_valid)
  from m1_c1_run [OF new_conv new_msg] obtain d' crow mrow where
    run: "handleMessageCreated This_controller (req_body req) d
             = (Inr (JObj [(''status'', JStr ''message_created''), (''messageId'', JStr ''m1'')]), d')" and
    rows: "map_of (conversations d') (PVal (JStr ''c1'')) = Some crow"
      "c_title crow = PVal (JStr ''T'')"
      "map_of (messages d') (PVal (JStr ''m1'')) = Some mrow"
      "m_conversation_id mrow = PVal (JStr ''c1'')"
      "m_role mrow = PVal (JStr ''user'')"
      "m_content mrow = PVal (JStr [CHR 0x22, CHR ''h'', CHR ''i'', CHR 0x22])"
    unfolding body by blast
  from handleChatGPTWebhook_message_created [OF ev ok run, of e] rows show ?thesis
    by blast
qed

text \<open>
  Claim C5 says that the POST of the scenario leaves the conversation \<open>c1\<close> and the
  message \<open>m1\<close> and is answered with the success body. On the route as it is wired the
  claim fails at the scenario itself: for the scenario's envelope with a valid
  signature, a timestamp within the window and the event type \<^verbatim>\<open>message.created\<close>,
  the verifier and the validation pass the request, the read of
  \<^verbatim>\<open>this.handleMessageCreated\<close> throws, the answer is 500 and the store is
  unchanged: a store that had neither \<open>c1\<close> nor \<open>m1\<close> has neither afterwards.
\<close>

theorem end_to_end_post_answered_500:
  assumes body: "req_body req = envelope_m1_c1"
    and ev: "hdr_event_type req = Some ''message.created''"
    and ts: "hdr_timestamp req = Some ts"
    and t: "parseInt ts = Some t"
    and fresh: "\<bar>nowMs e div 1000 - t\<bar> \<le> 300"
    and sig: "hdr_signature req =
                Some (''sha256='' @ digest_hex (hmac secret (ts @ ''.'' @ JSON_stringify envelope_m1_c1)))"
    and new_conv: "map_of (conversations d) (PVal (JStr ''c1'')) = None"
    and new_msg: "map_of (messages d) (PVal (JStr ''m1'')) = None"
  shows "validateWebhookSignature hmac secret e req = Next
       \<and> validateWebhookPayload (req_body req) = Valid
       \<and> post_webhook_chatgpt hmac secret e req d =
           (\<lparr>res_status = 500,
             res_body = JObj [(''error'', JStr ''Internal server error''),
                              (''message'',
                               JStr (''Cannot read properties of undefined (reading ''
                                     @ [CHR 0x27] @ ''handleMessageCreated'' @ [CHR 0x27] @ '')'')),
                              (''timestamp'', JStr (nowIso e))]\<rparr>, d)
       \<and> map_of (conversations (snd (post_webhook_chatgpt hmac secret e req d))) (PVal (JStr ''c1'')) = None
       \<and> map_of (messages (snd (post_webhook_chatgpt hmac secret e req d))) (PVal (JStr ''m1'')) = None"
proof -
  have pass: "validateWebhookSignature hmac secret e req = Next"
    by (rule valid_signature_passes [OF _ ts t fresh]) (simp add: sig body)
  have ok: "validateWebhookPayload (req_body req) = Valid"
    by (simp add: body envelope_m1_c1_valid)
  have "post_webhook_chatgpt hmac secret e req d =
           (\<lparr>res_status = 500,
             res_body = JObj [(''error'', JStr ''Internal server error''),
                              (''message'',
                               JStr (''Cannot read properties of undefined (reading ''
                                     @ [CHR 0x27] @ ''handleMessageCreated'' @ [CHR 0x27] @ '')'')),
                              (''timestamp'', JStr (nowIso e))]\<rparr>, d)"
    using pass ev ok
    by (simp add: post_webhook_chatgpt_def handleChatGPTWebhook_def Let_def event_type_of_def
        missing_def this_method_def io_throw_def type_error_reading_def)
  with pass ok new_conv new_msg show ?thesis
    by simp
qed

theorem end_to_end_post_answered_500_witness:
  "validateWebhookSignature example_mac example_secret example_env
     (signed_request ''1700000000'' ''message.created'' envelope_m1_c1) = Next
   \<and> validateWebhookPayload (req_body (signed_request ''1700000000'' ''message.created'' envelope_m1_c1))
       = Valid
   \<and> post_webhook_chatgpt example_mac example_secret example_env
       (signed_request ''1700000000'' ''message.created'' envelope_m1_c1) empty_db =
       (\<lparr>res_status = 500,
         res_body = JObj [(''error'', JStr ''Internal server error''),
                          (''message'',
                           JStr (''Cannot read properties of undefined (reading ''
                                 @ [CHR 0x27] @ ''handleMessageCreated'' @ [CHR 0x27] @ '')'')),
                          (''timestamp'', JStr ''2023-11-14T22:13:25.123Z'')]\<rparr>, empty_db)
   \<and> map_of (conversations (snd (post_webhook_chatgpt example_mac example_secret example_env
          (signed_request ''1700000000'' ''message.created'' envelope_m1_c1) empty_db)))
        (PVal (JStr ''c1'')) = None
   \<and> map_of (messages (snd (post_webhook_chatgpt example_mac example_secret example_env
          (signed_request ''1700000000'' ''message.created'' envelope_m1_c1) empty_db)))
        (PVal (JStr ''m1'')) = None"
proof -
  let ?req = "signed_request ''1700000000'' ''message.created'' envelope_m1_c1"
  have 1: "req_body ?req = envelope_m1_c1" "hdr_event_type ?req = Some ''message.created''"
    "hdr_timestamp ?req = Some ''1700000000''"
    by (simp_all add: signed_request_def)
  have 2: "\<bar>nowMs example_env div 1000 - 1700000000\<bar> \<le> 300"
    by (simp add: example_env_def)
  have 3: "hdr_signature ?req =
             Some (''sha256='' @ digest_hex (example_mac example_secret
                     (''1700000000'' @ ''.'' @ JSON_stringify envelope_m1_c1)))"
    by (simp add: signed_request_def)
  have 4: "map_of (conversations empty_db) (PVal (JStr ''c1'')) = None"
    "map_of (messages empty_db) (PVal (JStr ''m1'')) = None"
    by (simp_all add: empty_db_def)
  have 5: "nowIso example_env = ''2023-11-14T22:13:25.123Z''"
    by (simp add: example_env_def)
  from end_to_end_post_answered_500 [where hmac = example_mac and secret = example_secret,
      OF 1 parseInt_1700000000 2 3 4]
  show ?thesis
    unfolding 5 .
qed

text \<open>
  The scenario on the empty store, with the handler called as a method of the
  controller: the one message row has the content with its quotes, which is not the
  string \<open>hi\<close>.
\<close>

lemma m1_c1_empty_run:
  "handleMessageCreated This_controller envelope_m1_c1 empty_db =
     (Inr (JObj [(''status'', JStr ''message_created''), (''messageId'', JStr ''m1'')]),
      \<lparr>projects = [],
       conversations =
         [(PVal (JStr ''c1''),
           \<lparr>c_conversation_id = PVal (JStr ''c1''), c_title = PVal (JStr ''T''),
            c_model = PVal (JStr ''gpt-4''), c_create_time = PDate (Some 1700000000000),
            c_update_time = PDate (Some 1700000000000), c_project_id = PVal JNull,
            c_openai_thread_id = PVal JNull\<rparr>)],
       messages =
         [(PVal (JStr ''m1''),
           \<lparr>m_id = PVal (JStr ''m1''), m_conversation_id = PVal (JStr ''c1''),
            m_role = PVal (JStr ''user''),
            m_content = PVal (JStr [CHR 0x22, CHR ''h'', CHR ''i'', CHR 0x22]),
            m_parts = PVal JNull, m_create_time = PDate (Some 1700000000000),
            m_parent = PVal JNull, m_children = PVal JNull, m_author_name = PVal JNull\<rparr>)],
       statements = [SELECT_conversation, INSERT_conversation, INSERT_message]\<rparr>)"
  by (simp add: handler_defs envelope_m1_c1_def message_m1_def conversation_c1_def empty_db_def quote_hi)

lemma handler_on_controller_stores_quoted_content:
  "map (\<lambda>kr. m_content (snd kr))
        (messages (snd (handleChatGPTWebhook This_controller example_env
           (signed_request ''1700000000'' ''message.created'' envelope_m1_c1) empty_db)))
     = [PVal (JStr [CHR 0x22, CHR ''h'', CHR ''i'', CHR 0x22])]
   \<and> [CHR 0x22, CHR ''h'', CHR ''i'', CHR 0x22] \<noteq> ''hi''"
proof -
  let ?req = "signed_request ''1700000000'' ''message.created'' envelope_m1_c1"
  have bound: "snd (handleChatGPTWebhook This_controller example_env ?req empty_db) =
      snd (handleMessageCreated This_controller envelope_m1_c1 empty_db)"
    by (simp add: handleChatGPTWebhook_def Let_def event_type_of_def missing_def this_method_def
        signed_request_def envelope_m1_c1_valid m1_c1_empty_run)
  show ?thesis
    unfolding bound by (simp add: m1_c1_empty_run)
qed

section \<open>The invariant of stored messages\<close>

subsection \<open>Trimming and serialised text\<close>

lemma all_dropWhile: "(\<forall>c \<in> set (dropWhile P s). P c) \<longleftrightarrow> (\<forall>c \<in> set s. P c)"
  by (induction s) auto

lemma trim_empty_iff: "trim s = [] \<longleftrightarrow> (\<forall>c \<in> set s. is_ws c)"
proof -
  have "trim s = [] \<longleftrightarrow> (\<forall>c \<in> set (dropWhile is_ws s). is_ws c)"
    by (simp add: trim_def dropWhile_eq_Nil_conv)
  then show ?thesis
    by (simp only: all_dropWhile)
qed

lemma trim_trim_nonempty:
  assumes "trim s \<noteq> []"
  shows "trim (trim s) \<noteq> []"
proof -
  let ?u = "dropWhile is_ws (rev (dropWhile is_ws s))"
  have u: "?u \<noteq> []" using assms by (simp add: trim_def)
  then have "\<not> is_ws (hd ?u)" by (rule hd_dropWhile)
  moreover have "hd ?u \<in> set (trim s)"
    using u by (simp add: trim_def)
  ultimately show ?thesis
    by (auto simp: trim_empty_iff)
qed

lemma trim_nonempty_head: "s \<noteq> [] \<Longrightarrow> \<not> is_ws (hd s) \<Longrightarrow> trim s \<noteq> []"
  by (cases s) (auto simp: trim_empty_iff)

lemma show_nat_head: "\<not> is_ws (hd (show_nat n))"
proof -
  have "hd (show_nat n) \<in> set (show_nat n)"
    using show_nat_nonempty by simp
  then show ?thesis
    using show_nat_digits decimal_digit_facts(1) by blast
qed

lemma JSON_stringify_head: "JSON_stringify v \<noteq> [] \<and> \<not> is_ws (hd (JSON_stringify v))"
proof (cases v)
  case (JNum n)
  then show ?thesis
    using show_nat_head show_nat_nonempty by (simp add: show_int_def is_ws_def)
qed (simp_all add: is_ws_def quote_def dquote_def)

lemma JSON_stringify_nonblank: "trim (JSON_stringify v) \<noteq> []"
  using JSON_stringify_head [of v] by (simp add: trim_nonempty_head)

lemma digit_not_control: "is_digit 10 c \<Longrightarrow> \<not> is_control c"
  by (auto simp: is_digit_def digit_of_def is_control_def Let_def split: if_splits)

lemma show_nat_head_control: "\<not> is_control (hd (show_nat n))"
proof -
  have "hd (show_nat n) \<in> set (show_nat n)"
    using show_nat_nonempty by simp
  then show ?thesis
    using show_nat_digits digit_not_control by blast
qed

lemma JSON_stringify_head_control: "\<not> is_control (hd (JSON_stringify v))"
proof (cases v)
  case (JNum n)
  then show ?thesis
    using show_nat_head_control by (simp add: show_int_def is_control_def)
qed (simp_all add: is_control_def quote_def dquote_def)

text \<open>A text that begins with a character that is neither white space nor a control
  character is not empty after normalisation.\<close>

lemma trim_keeps_head:
  assumes "s \<noteq> []" "\<not> is_ws (hd s)"
  shows "trim s \<noteq> [] \<and> hd (trim s) = hd s"
proof -
  from assms obtain c cs where s: "s = c # cs" and c: "\<not> is_ws c"
    by (cases s) auto
  have "trim s = rev (dropWhile is_ws (rev cs @ [c]))"
    using c by (simp add: trim_def s)
  also have "\<dots> = c # rev (dropWhile is_ws (rev cs))"
    using c by (simp add: dropWhile_append3)
  finally show ?thesis
    by (simp add: s)
qed

lemma replace_crlf_nonempty: "xs \<noteq> [] \<Longrightarrow> replace_crlf xs \<noteq> []"
  by (induction xs rule: replace_crlf.induct) auto

lemma normalised_nonempty_head:
  assumes "s \<noteq> []" "\<not> is_ws (hd s)" "\<not> is_control (hd s)"
  shows "normalised_nonempty (JStr s)"
proof -
  from trim_keeps_head [OF assms(1,2)] obtain cs where t: "trim s = hd s # cs"
    by (cases "trim s") auto
  have "filter (\<lambda>c. \<not> is_control c) (trim s) \<noteq> []"
    using assms(3) by (simp add: t)
  then have "replace_cr (replace_crlf (filter (\<lambda>c. \<not> is_control c) (trim s))) \<noteq> []"
    by (simp add: replace_cr_def replace_crlf_nonempty)
  with assms(1) show ?thesis
    by (simp add: normalised_nonempty_def cleanMessageContent_def)
qed

lemma stringify_or_null_cases:
  "stringify_or_null v = PVal JNull \<or> (\<exists>c. stringify_or_null v = PVal c \<and> normalised_nonempty c)"
  using JSON_stringify_head [of "the v"] JSON_stringify_head_control [of "the v"]
  by (simp add: stringify_or_null_def normalised_nonempty_head)

subsection \<open>Which operations write messages\<close>

lemma keeps_messages [simp]:
  "messages (snd (io_return x d)) = messages d"
  "messages (snd (io_throw err d)) = messages d"
  "messages (snd (getConversation k d)) = messages d"
  "messages (snd (getProject k d)) = messages d"
  "messages (snd (createProject pd d)) = messages d"
  "messages (snd (insertConversation cd d)) = messages d"
  by (simp_all add: io_return_def io_throw_def getConversation_def getProject_def createProject_def
      insertConversation_def query_def split: prod.splits)

lemma io_bind_keeps:
  assumes "\<And>d. messages (snd (m d)) = messages d"
    and "\<And>x d. messages (snd (f x d)) = messages d"
  shows "messages (snd (io_bind m f d)) = messages d"
proof (cases "m d")
  case (Pair r d1)
  have "messages d1 = messages d"
    using assms(1) [of d] Pair by simp
  then show ?thesis
    using assms(2) Pair by (cases r) (simp_all add: io_bind_def)
qed

lemma this_method_keeps:
  assumes "\<And>d. messages (snd (call d)) = messages d"
  shows "messages (snd (this_method self name call d)) = messages d"
  using assms by (cases self) (simp_all add: this_method_def)

lemma handleConversationCreated_keeps:
  "messages (snd (handleConversationCreated payload d)) = messages d"
  unfolding handleConversationCreated_def Let_def
  by (intro io_bind_keeps) (auto intro!: io_bind_keeps)

lemma handleConversationUpdated_keeps:
  "messages (snd (handleConversationUpdated payload d)) = messages d"
  unfolding handleConversationUpdated_def Let_def
  by (auto intro!: io_bind_keeps)

lemma insertMessage_written:
  assumes "map_of (messages (snd (insertMessage md d))) k = Some row"
    and "map_of (messages d) k \<noteq> Some row"
  shows "m_role row = m_role md \<and> m_content row = m_content md"
proof (cases "PUndefined \<in> set [m_id md, m_conversation_id md, m_role md, m_content md, m_parts md,
             m_create_time md, m_parent md, m_children md, m_author_name md]")
  case True
  then have "insertMessage md d = (Inl bind_undefined, d)"
    unfolding insertMessage_def by (rule query_undefined)
  with assms show ?thesis by simp
next
  case False
  from insertMessage_run [OF False, of d] obtain d' where
    run: "insertMessage md d = (Inr (), d')" and
    look: "\<forall>k. map_of (messages d') k =
                 (if k = m_id md
                  then Some (case map_of (messages d) k of
                               None \<Rightarrow> md
                             | Some row \<Rightarrow> row\<lparr>m_role := m_role md, m_content := m_content md,
                                                m_parts := m_parts md,
                                                m_create_time := m_create_time md,
                                                m_parent := m_parent md,
                                                m_children := m_children md,
                                                m_author_name := m_author_name md\<rparr>)
                  else map_of (messages d) k)"
    by blast
  from assms run look show ?thesis
    by (auto split: if_splits option.splits)
qed

lemma io_bind_return_snd: "snd (io_bind m (\<lambda>x. io_return (g x)) d) = snd (m d)"
  by (cases "m d") (auto simp: io_bind_def io_return_def split: sum.splits)

lemma handleMessageUpdated_written:
  assumes "map_of (messages (snd (handleMessageUpdated payload d))) k = Some row"
    and "map_of (messages d) k \<noteq> Some row"
  shows "\<not> nullish (get_prop payload ''message'')
       \<and> m_role row = of_js (js_or (member (get_prop payload ''message'') ''role'') (Some (JStr ''user'')))
       \<and> m_content row = stringify_or_null (member (get_prop payload ''message'') ''content'')"
proof (cases "nullish (get_prop payload ''message'')")
  case True
  with assms show ?thesis
    by (simp add: handleMessageUpdated_def Let_def io_throw_def)
next
  case False
  with assms show ?thesis
    unfolding handleMessageUpdated_def Let_def
    by (simp add: io_bind_return_snd) (drule (1) insertMessage_written, simp)
qed

lemma handleMessageCreated_written:
  assumes "map_of (messages (snd (handleMessageCreated self payload d))) k = Some row"
    and "map_of (messages d) k \<noteq> Some row"
  shows "\<not> nullish (get_prop payload ''message'')
       \<and> m_role row = of_js (js_or (member (get_prop payload ''message'') ''role'') (Some (JStr ''user'')))
       \<and> m_content row = stringify_or_null (member (get_prop payload ''message'') ''content'')"
proof -
  let ?message = "get_prop payload ''message''"
  let ?conversation = "get_prop payload ''conversation''"
  let ?A = "if truthy ?conversation
            then io_bind (getConversation (of_js (member ?conversation ''id'')))
                   (\<lambda>existingConv.
                      if existingConv = None
                      then this_method self ''handleConversationCreated''
                             (io_bind
                                (handleConversationCreated
                                   (JObj [(''conversation'', the ?conversation)]))
                                (\<lambda>r. io_return ()))
                      else io_return ())
            else io_return ()"
  have keepA: "messages (snd (?A d0)) = messages d0" for d0
    by (auto intro!: io_bind_keeps this_method_keeps simp: handleConversationCreated_keeps)
  obtain ra d1 where A: "?A d = (ra, d1)"
    by (cases "?A d")
  have d1: "messages d1 = messages d"
    using keepA [of d] A by simp
  show ?thesis
  proof (cases ra)
    case (Inl err)
    then have "snd (handleMessageCreated self payload d) = d1"
      unfolding handleMessageCreated_def Let_def using A by (simp add: io_bind_def)
    with assms d1 show ?thesis by simp
  next
    case (Inr u)
    show ?thesis
    proof (cases "nullish ?message")
      case True
      then have "snd (handleMessageCreated self payload d) = d1"
        unfolding handleMessageCreated_def Let_def using A Inr
        by (simp add: io_bind_def io_throw_def)
      with assms d1 show ?thesis by simp
    next
      case False
      let ?md = "\<lparr>m_id = of_js (member ?message ''id''),
                  m_conversation_id =
                    of_js (js_or (member ?message ''conversation_id'') (opt_chain ?conversation ''id'')),
                  m_role = of_js (js_or (member ?message ''role'') (Some (JStr ''user''))),
                  m_content = stringify_or_null (member ?message ''content''),
                  m_parts = stringify_or_null (member ?message ''parts''),
                  m_create_time = new_Date_seconds (member ?message ''create_time''),
                  m_parent = of_js (js_or (member ?message ''parent'') (Some JNull)),
                  m_children = stringify_or_null (member ?message ''children''),
                  m_author_name =
                    of_js (js_or (opt_chain (member ?message ''author'') ''name'') (Some JNull))\<rparr>"
      have "snd (handleMessageCreated self payload d) = snd (insertMessage ?md d1)"
        unfolding handleMessageCreated_def Let_def using A Inr False
        by (simp add: io_bind_def [of ?A] io_bind_return_snd)
      with assms d1 have "map_of (messages (snd (insertMessage ?md d1))) k = Some row"
        "map_of (messages d1) k \<noteq> Some row"
        by simp_all
      from insertMessage_written [OF this] False show ?thesis by simp
    qed
  qed
qed

lemma valid_role:
  assumes "validateWebhookPayload payload = Valid"
    and "\<not> nullish (get_prop payload ''message'')"
  shows "\<exists>r. of_js (js_or (member (get_prop payload ''message'') ''role'') (Some (JStr ''user''))) = PVal r
            \<and> r \<in> {JStr ''user'', JStr ''assistant'', JStr ''system''}"
proof -
  from assms(2) obtain m where m: "get_prop payload ''message'' = Some m"
    by (auto simp: nullish_def)
  from messageSchema_facts [OF valid_payload_message [OF assms(1) m]] obtain mkvs where
    "m = JObj mkvs"
    "map_of mkvs ''role'' \<in> {Some (JStr ''user''), Some (JStr ''assistant''), Some (JStr ''system'')}"
    by blast
  then show ?thesis
    unfolding m by (auto simp: member_def js_or_def)
qed

subsection \<open>What the two services store\<close>

lemma handleChatGPTWebhook_written:
  assumes "map_of (messages (snd (handleChatGPTWebhook self e req d))) k = Some row"
    and "map_of (messages d) k \<noteq> Some row"
  shows "(\<exists>r. m_role row = PVal r \<and> r \<in> {JStr ''user'', JStr ''assistant'', JStr ''system''})
       \<and> (m_content row = PVal JNull \<or> (\<exists>c. m_content row = PVal c \<and> normalised_nonempty c))"
proof (cases "validateWebhookPayload (req_body req)")
  case (Invalid errs)
  with assms show ?thesis
    by (simp add: handleChatGPTWebhook_def)
next
  case Valid
  let ?p = "req_body req"
  let ?dispatch = "if event_type_of req = ''conversation.created''
                    then this_method self ''handleConversationCreated''
                           (handleConversationCreated ?p)
                    else if event_type_of req = ''conversation.updated''
                    then this_method self ''handleConversationUpdated''
                           (handleConversationUpdated ?p)
                    else if event_type_of req = ''message.created''
                    then this_method self ''handleMessageCreated''
                           (handleMessageCreated self ?p)
                    else if event_type_of req = ''message.updated''
                    then this_method self ''handleMessageUpdated''
                           (handleMessageUpdated ?p)
                    else io_return (JObj [(''status'', JStr ''ignored''),
                                          (''eventType'', JStr (event_type_of req))])"
  have snd_eq: "snd (handleChatGPTWebhook self e req d) = snd (?dispatch d)"
    using Valid by (simp add: handleChatGPTWebhook_def Let_def split: prod.splits sum.splits)
  have written: "map_of (messages (snd (?dispatch d))) k = Some row"
    using assms(1) snd_eq by simp
  have msg_case: "\<not> nullish (get_prop ?p ''message'')
       \<and> m_role row = of_js (js_or (member (get_prop ?p ''message'') ''role'') (Some (JStr ''user'')))
       \<and> m_content row = stringify_or_null (member (get_prop ?p ''message'') ''content'')"
  proof (cases self)
    case This_undefined
    then have "messages (snd (?dispatch d)) = messages d"
      by (simp add: this_method_def)
    with written assms(2) show ?thesis by simp
  next
    case This_controller
    consider (cc) "event_type_of req = ''conversation.created''"
      | (cu) "event_type_of req = ''conversation.updated''"
      | (mc) "event_type_of req = ''message.created''"
      | (mu) "event_type_of req = ''message.updated''"
      | (other) "event_type_of req \<notin> {''conversation.created'', ''conversation.updated'',
                                 ''message.created'', ''message.updated''}"
      by auto
    then show ?thesis
    proof cases
      case cc
      then have "messages (snd (?dispatch d)) = messages d"
        using This_controller by (simp add: this_method_def handleConversationCreated_keeps)
      with written assms(2) show ?thesis by simp
    next
      case cu
      then have "messages (snd (?dispatch d)) = messages d"
        using This_controller by (simp add: this_method_def handleConversationUpdated_keeps)
      with written assms(2) show ?thesis by simp
    next
      case mc
      then have "?dispatch d = handleMessageCreated self ?p d"
        using This_controller by (simp add: this_method_def)
      with written assms(2) show ?thesis
        using handleMessageCreated_written by simp
    next
      case mu
      then have "?dispatch d = handleMessageUpdated ?p d"
        using This_controller by (simp add: this_method_def)
      with written assms(2) show ?thesis
        using handleMessageUpdated_written by simp
    next
      case other
      then have "messages (snd (?dispatch d)) = messages d"
        by simp
      with written assms(2) show ?thesis by simp
    qed
  qed
  from msg_case valid_role [OF Valid] stringify_or_null_cases show ?thesis
    by metis
qed

lemma ChatBETO_insertMessage_stored:
  assumes "ChatBETO_insertMessage ce conversationId role content options st = (Inr r, st')"
  shows "\<exists>row. map_of (chat_messages st') (r_messageId r) = Some row
           \<and> cm_role row \<in> closed_role_set \<and> trimmed_nonempty (cm_content row)"
proof -
  from assms have role: "role \<in> set allowed_roles"
    and content: "is_string content" "trim (string_of content) \<noteq> []"
    by (auto simp: ChatBETO_insertMessage_def Let_def split: if_splits)
  from role have r: "the role \<in> closed_role_set"
    by (auto simp: allowed_roles_def closed_role_set_def)
  have c: "trimmed_nonempty (JStr (trim (string_of content)))"
    using content(2) by (simp add: trimmed_nonempty_def trim_trim_nonempty)
  from assms role content r c show ?thesis
    by (auto simp: ChatBETO_insertMessage_def Let_def map_of_upsert split: if_splits option.splits)
qed

text \<open>
  Claim C9, with the two changes that the code forces. A message row that
  \<^verbatim>\<open>handleChatGPTWebhook\<close> writes (a row of the store afterwards that was not there
  before), on whichever receiver it is called, has a role in the closed set (one of user,
  assistant, system: what the schema admits), and its content is either SQL
  \<^verbatim>\<open>NULL\<close> (the message had no content, \<^verbatim>\<open>null\<close> or none at all) or a text that
  is not empty after normalisation. A successful
  \<^verbatim>\<open>ChatBETODatabaseService.insertMessage\<close> leaves a row with a role in the closed set
  and a content that is not empty after trimming: the control characters, which the
  normalisation removes, are stored as they come.
\<close>

theorem stored_message_invariant:
  "(\<forall>k row. map_of (messages (snd (handleChatGPTWebhook self e req d))) k = Some row
            \<and> map_of (messages d) k \<noteq> Some row \<longrightarrow>
        (\<exists>r. m_role row = PVal r \<and> r \<in> closed_role_set)
      \<and> (m_content row = PVal JNull \<or> (\<exists>c. m_content row = PVal c \<and> normalised_nonempty c)))
   \<and> (\<forall>r st'. ChatBETO_insertMessage ce conversationId role content options st = (Inr r, st') \<longrightarrow>
        (\<exists>row. map_of (chat_messages st') (r_messageId r) = Some row
           \<and> cm_role row \<in> closed_role_set \<and> trimmed_nonempty (cm_content row)))"
proof -
  have sub: "{JStr ''user'', JStr ''assistant'', JStr ''system''} \<subseteq> closed_role_set"
    by (simp add: closed_role_set_def)
  have 1: "(\<exists>r. m_role row = PVal r \<and> r \<in> closed_role_set)
      \<and> (m_content row = PVal JNull \<or> (\<exists>c. m_content row = PVal c \<and> normalised_nonempty c))"
    if "map_of (messages (snd (handleChatGPTWebhook self e req d))) k = Some row"
      "map_of (messages d) k \<noteq> Some row" for k row
    using handleChatGPTWebhook_written [OF that] sub by blast
  from 1 ChatBETO_insertMessage_stored show ?thesis
    by blast
qed

lemma no_content_run:
  "handleMessageCreated This_controller envelope_no_content empty_db =
     (Inr (JObj [(''status'', JStr ''message_created''), (''messageId'', JStr ''m1'')]),
      \<lparr>projects = [],
       conversations = [],
       messages =
         [(PVal (JStr ''m1''),
           \<lparr>m_id = PVal (JStr ''m1''), m_conversation_id = PVal (JStr ''c1''),
            m_role = PVal (JStr ''user''), m_content = PVal JNull,
            m_parts = PVal JNull, m_create_time = PDate (Some 1700000000000),
            m_parent = PVal JNull, m_children = PVal JNull, m_author_name = PVal JNull\<rparr>)],
       statements = [INSERT_message]\<rparr>)"
  by (simp add: handler_defs envelope_no_content_def empty_db_def)

lemma no_content_handled:
  "handleChatGPTWebhook This_controller example_env no_content_request empty_db =
     (\<lparr>res_status = 200,
       res_body = JObj [(''status'', JStr ''success''),
                        (''eventType'', JStr ''message.created''),
                        (''result'', JObj [(''status'', JStr ''message_created''),
                                           (''messageId'', JStr ''m1'')]),
                        (''timestamp'', JStr (nowIso example_env))]\<rparr>,
      \<lparr>projects = [],
       conversations = [],
       messages =
         [(PVal (JStr ''m1''),
           \<lparr>m_id = PVal (JStr ''m1''), m_conversation_id = PVal (JStr ''c1''),
            m_role = PVal (JStr ''user''), m_content = PVal JNull,
            m_parts = PVal JNull, m_create_time = PDate (Some 1700000000000),
            m_parent = PVal JNull, m_children = PVal JNull, m_author_name = PVal JNull\<rparr>)],
       statements = [INSERT_message]\<rparr>)"
  by (simp add: handleChatGPTWebhook_def Let_def event_type_of_def missing_def this_method_def
      no_content_request_def signed_request_def envelope_no_content_valid no_content_run)

lemma control_content_run:
  "ChatBETO_insertMessage example_chat_env (Some (JStr ''c1'')) (Some (JStr ''user''))
     (Some (JStr control_content)) no_options empty_chat_db =
     (Inr \<lparr>r_success = True, r_messageId = JStr ''123e4567-e89b-42d3-a456-426614174000'',
           r_conversationId = JStr ''c1''\<rparr>,
      \<lparr>chat_messages =
         [(JStr ''123e4567-e89b-42d3-a456-426614174000'',
           \<lparr>cm_id = JStr ''123e4567-e89b-42d3-a456-426614174000'',
            cm_conversation_id = JStr ''c1'',
            cm_role = JStr ''user'',
            cm_content = JStr [CHR 0x01],
            cm_content_type = JStr ''text'',
            cm_author_name = JNull,
            cm_parent_message_id = JNull,
            cm_created_at_timestamp_ms = Some 1700000000000,
            cm_created_at = ''2023-11-14 22:13:20'',
            cm_status = JStr ''finished_successfully'',
            cm_updated_at = None\<rparr>)],
       chat_executed = 1\<rparr>)"
  by (simp add: ChatBETO_insertMessage_def Let_def is_string_def string_of_def allowed_roles_def
      control_content_def trim_def is_ws_def js_or_def no_options_def example_chat_env_def
      empty_chat_db_def)

text \<open>
  The claim as stated fails for a call of \<^verbatim>\<open>ChatBETODatabaseService.insertMessage\<close>
  whose content is one control character: the call succeeds and stores the content as
  it is, and the normalisation of the stored content is the empty string. It also fails
  in \<^verbatim>\<open>handleChatGPTWebhook\<close>, called as a method of the controller, for a valid
  \<^verbatim>\<open>message.created\<close> event whose message has no content: the event is accepted and
  the stored content is \<^verbatim>\<open>NULL\<close>.
\<close>

theorem stored_content_counterexample:
  "ChatBETO_insertMessage example_chat_env (Some (JStr ''c1'')) (Some (JStr ''user''))
     (Some (JStr [CHR 0x01])) no_options empty_chat_db =
     (Inr \<lparr>r_success = True, r_messageId = JStr ''123e4567-e89b-42d3-a456-426614174000'',
           r_conversationId = JStr ''c1''\<rparr>,
      \<lparr>chat_messages =
         [(JStr ''123e4567-e89b-42d3-a456-426614174000'',
           \<lparr>cm_id = JStr ''123e4567-e89b-42d3-a456-426614174000'',
            cm_conversation_id = JStr ''c1'',
            cm_role = JStr ''user'',
            cm_content = JStr [CHR 0x01],
            cm_content_type = JStr ''text'',
            cm_author_name = JNull,
            cm_parent_message_id = JNull,
            cm_created_at_timestamp_ms = Some 1700000000000,
            cm_created_at = ''2023-11-14 22:13:20'',
            cm_status = JStr ''finished_successfully'',
            cm_updated_at = None\<rparr>)],
       chat_executed = 1\<rparr>)
   \<and> cleanMessageContent (JStr [CHR 0x01]) = Inr []
   \<and> \<not> normalised_nonempty (JStr [CHR 0x01])
   \<and> validateWebhookPayload (req_body no_content_request) = Valid
   \<and> res_status (fst (handleChatGPTWebhook This_controller example_env no_content_request empty_db)) = 200
   \<and> map (\<lambda>kr. m_content (snd kr))
        (messages (snd (handleChatGPTWebhook This_controller example_env no_content_request empty_db)))
      = [PVal JNull]
   \<and> \<not> normalised_nonempty JNull"
proof -
  have clean: "cleanMessageContent (JStr [CHR 0x01]) = Inr []"
    by (simp add: cleanMessageContent_def trim_def is_ws_def is_control_def replace_cr_def)
  have ok: "validateWebhookPayload (req_body no_content_request) = Valid"
    by (simp add: no_content_request_def signed_request_def envelope_no_content_valid)
  have null: "\<not> normalised_nonempty JNull"
    by (simp add: normalised_nonempty_def cleanMessageContent_def)
  from clean ok null control_content_run show ?thesis
    by (simp add: no_content_handled normalised_nonempty_def control_content_def)
qed

theorem stored_message_invariant_witness:
  "(\<exists>row. map_of (messages (snd (handleChatGPTWebhook This_controller example_env no_content_request empty_db)))
             (PVal (JStr ''m1'')) = Some row
         \<and> (\<exists>r. m_role row = PVal r \<and> r \<in> closed_role_set)
         \<and> (m_content row = PVal JNull \<or> (\<exists>c. m_content row = PVal c \<and> normalised_nonempty c)))
   \<and> (\<exists>r st' row.
         ChatBETO_insertMessage example_chat_env (Some (JStr ''c1'')) (Some (JStr ''user''))
           (Some (JStr control_content)) no_options empty_chat_db = (Inr r, st')
         \<and> map_of (chat_messages st') (r_messageId r) = Some row
         \<and> cm_role row \<in> closed_role_set \<and> trimmed_nonempty (cm_content row))"
proof -
  note inv = stored_message_invariant [of This_controller example_env no_content_request empty_db
      example_chat_env "Some (JStr ''c1'')" "Some (JStr ''user'')" "Some (JStr control_content)"
      no_options empty_chat_db]
  obtain row where row: "map_of (messages (snd (handleChatGPTWebhook This_controller example_env
      no_content_request empty_db))) (PVal (JStr ''m1'')) = Some row"
    by (simp add: no_content_handled)
  have new: "map_of (messages empty_db) (PVal (JStr ''m1'')) \<noteq> Some row"
    by (simp add: empty_db_def)
  obtain r st' where run: "ChatBETO_insertMessage example_chat_env (Some (JStr ''c1''))
      (Some (JStr ''user'')) (Some (JStr control_content)) no_options empty_chat_db = (Inr r, st')"
    using control_content_run by blast
  from inv row new run show ?thesis
    by blast
qed

end
